theory Spec2Isabelle
  imports Main
begin

section \<open>Python values\<close>

text \<open>
  The engine is dynamically typed: attributes fetched from a source, fact contexts, rule
  conditions and token payloads are dictionaries with arbitrary JSON values. The model
  covers \<open>None\<close>, booleans, unbounded integers, strings and lists of these.
  Floating-point numbers and dictionaries inside a value are not covered. A string is a
  list of characters, each standing for one code point below 256. A dictionary whose
  iteration order is never observed is a map; one that is iterated is an association
  list.
\<close>

datatype pyval = PNone | PBool bool | PInt int | PStr string | PList "pyval list"

text \<open>
  Rule conditions, token payloads and responses are written with string keys in the
  program: they are maps from strings.
\<close>

type_synonym attrs = "string \<rightharpoonup> pyval"

text \<open>
  The fetched data and the fact context are filled by \<open>dict.update\<close> with whatever a
  source sent, so their keys are arbitrary hashable values: \<open>None\<close>, a number (the keys
  \<open>True\<close> and \<open>False\<close> are the keys 1 and 0) or a string. A list cannot be hashed.
\<close>

datatype dict_key = KNone | KNum int | KStr string

fun key_of :: "pyval \<Rightarrow> dict_key option" where
  "key_of PNone = Some KNone"
| "key_of (PBool b) = Some (KNum (if b then 1 else 0))"
| "key_of (PInt i) = Some (KNum i)"
| "key_of (PStr s) = Some (KStr s)"
| "key_of (PList xs) = None"

type_synonym facts = "dict_key \<rightharpoonup> pyval"

text \<open>The exceptions the modelled code can raise, each with the text of \<open>str(e)\<close>.\<close>

datatype py_error =
    TypeError string
  | AttributeError string
  | ValueError string
  | NameError string
  | KeyError string
  | Exception string

fun str_of_error :: "py_error \<Rightarrow> string" where
  "str_of_error (TypeError m) = m"
| "str_of_error (AttributeError m) = m"
| "str_of_error (ValueError m) = m"
| "str_of_error (NameError m) = m"
| "str_of_error (KeyError m) = m"
| "str_of_error (Exception m) = m"

subsection \<open>Strings\<close>

definition squote :: char where
  "squote = CHR 0x27"

definition dquote :: char where
  "dquote = CHR 0x22"

definition backslash :: char where
  "backslash = CHR 0x5C"

text \<open>\<open>quoted s\<close> is \<open>s\<close> between single quotes, as an f-string writes \<open>'{s}'\<close>.\<close>

definition quoted :: "string \<Rightarrow> string" where
  "quoted s = [squote] @ s @ [squote]"

function str_of_nat :: "nat \<Rightarrow> string" where
  "str_of_nat n =
     (if n < 10 then [''0123456789'' ! n]
      else str_of_nat (n div 10) @ [''0123456789'' ! (n mod 10)])"
  by pat_completeness auto
termination
  by (relation "measure id") auto

declare str_of_nat.simps [simp del]

definition str_of_int :: "int \<Rightarrow> string" where
  "str_of_int i = (if i < 0 then ''-'' @ str_of_nat (nat (- i)) else str_of_nat (nat i))"

text \<open>\<open>sep.join(xs)\<close>\<close>

fun join :: "string \<Rightarrow> string list \<Rightarrow> string" where
  "join sep [] = []"
| "join sep [x] = x"
| "join sep (x # y # ys) = x @ sep @ join sep (y # ys)"

text \<open>\<open>str.isspace\<close> on one code point below 256.\<close>

definition isspace :: "char \<Rightarrow> bool" where
  "isspace c =
     (let n = (of_char c :: nat)
      in (9 \<le> n \<and> n \<le> 13) \<or> (28 \<le> n \<and> n \<le> 32) \<or> n = 133 \<or> n = 160)"

definition strip :: "string \<Rightarrow> string" where
  "strip s = rev (dropWhile isspace (rev (dropWhile isspace s)))"

definition lower_char :: "char \<Rightarrow> char" where
  "lower_char c =
     (let n = (of_char c :: nat)
      in if (65 \<le> n \<and> n \<le> 90) \<or> (192 \<le> n \<and> n \<le> 222 \<and> n \<noteq> 215)
         then char_of (n + 32) else c)"

definition lower :: "string \<Rightarrow> string" where
  "lower s = map lower_char s"

text \<open>\<open>sub in s\<close> for two strings.\<close>

fun startswith :: "string \<Rightarrow> string \<Rightarrow> bool" where
  "startswith s [] = True"
| "startswith [] (p # ps) = False"
| "startswith (c # cs) (p # ps) = (c = p \<and> startswith cs ps)"

fun str_contains :: "string \<Rightarrow> string \<Rightarrow> bool" where
  "str_contains [] sub = (sub = [])"
| "str_contains (c # cs) sub = (startswith (c # cs) sub \<or> str_contains cs sub)"

text \<open>Three-way comparison of two strings by code point: negative, zero or positive.\<close>

fun str_compare :: "string \<Rightarrow> string \<Rightarrow> int" where
  "str_compare [] [] = 0"
| "str_compare [] (b # bs) = - 1"
| "str_compare (a # as) [] = 1"
| "str_compare (a # as) (b # bs) =
     (if a = b then str_compare as bs
      else if (of_char a :: nat) < of_char b then - 1 else 1)"

subsection \<open>\<open>repr\<close> and \<open>str\<close>\<close>

definition hex2 :: "nat \<Rightarrow> string" where
  "hex2 n = [''0123456789abcdef'' ! (n div 16), ''0123456789abcdef'' ! (n mod 16)]"

definition repr_char :: "char \<Rightarrow> char \<Rightarrow> string" where
  "repr_char qc c =
     (let n = (of_char c :: nat)
      in if c = qc \<or> c = backslash then [backslash, c]
         else if n = 9 then [backslash, CHR ''t'']
         else if n = 10 then [backslash, CHR ''n'']
         else if n = 13 then [backslash, CHR ''r'']
         else if n < 32 \<or> n = 127 then [backslash, CHR ''x''] @ hex2 n
         else if n < 127 then [c]
         else if n \<le> 160 \<or> n = 173 then [backslash, CHR ''x''] @ hex2 n
         else [c])"

definition repr_str :: "string \<Rightarrow> string" where
  "repr_str s =
     (let qc = (if squote \<in> set s \<and> dquote \<notin> set s then dquote else squote)
      in [qc] @ concat (map (repr_char qc) s) @ [qc])"

fun py_repr :: "pyval \<Rightarrow> string" where
  "py_repr PNone = ''None''"
| "py_repr (PBool b) = (if b then ''True'' else ''False'')"
| "py_repr (PInt i) = str_of_int i"
| "py_repr (PStr s) = repr_str s"
| "py_repr (PList xs) = ''['' @ join '', '' (map py_repr xs) @ '']''"

text \<open>\<open>str(v)\<close>, which an f-string applies to each \<open>{v}\<close>.\<close>

definition py_str :: "pyval \<Rightarrow> string" where
  "py_str v = (case v of PStr s \<Rightarrow> s | _ \<Rightarrow> py_repr v)"

definition type_name :: "pyval \<Rightarrow> string" where
  "type_name v =
     (case v of PNone \<Rightarrow> ''NoneType'' | PBool _ \<Rightarrow> ''bool'' | PInt _ \<Rightarrow> ''int''
      | PStr _ \<Rightarrow> ''str'' | PList _ \<Rightarrow> ''list'')"

subsection \<open>Comparison operators\<close>

text \<open>
  \<open>a == b\<close>: booleans compare as the integers 0 and 1, lists compare element by
  element, values of unrelated types are unequal. It never raises.
\<close>

fun num_of :: "pyval \<Rightarrow> int option" where
  "num_of (PBool b) = Some (if b then 1 else 0)"
| "num_of (PInt i) = Some i"
| "num_of _ = None"

fun py_eq :: "pyval \<Rightarrow> pyval \<Rightarrow> bool"
  and py_eq_list :: "pyval list \<Rightarrow> pyval list \<Rightarrow> bool" where
  "py_eq PNone b = (b = PNone)"
| "py_eq (PBool x) b = (num_of b = Some (if x then 1 else 0))"
| "py_eq (PInt i) b = (num_of b = Some i)"
| "py_eq (PStr s) b = (b = PStr s)"
| "py_eq (PList xs) (PList ys) = py_eq_list xs ys"
| "py_eq (PList xs) _ = False"
| "py_eq_list [] [] = True"
| "py_eq_list (x # xs) (y # ys) = (py_eq x y \<and> py_eq_list xs ys)"
| "py_eq_list _ _ = False"

text \<open>
  The four ordering operators. Numbers compare with numbers, strings with strings by
  code point, lists with lists at the first pair of unequal elements (by length when
  there is none); every other pair of types raises \<open>TypeError\<close>.
\<close>

datatype cmp_op = Lt | Gt | Le | Ge

definition op_symbol :: "cmp_op \<Rightarrow> string" where
  "op_symbol c = (case c of Lt \<Rightarrow> ''<'' | Gt \<Rightarrow> ''>'' | Le \<Rightarrow> ''<='' | Ge \<Rightarrow> ''>='')"

definition int_cmp :: "cmp_op \<Rightarrow> int \<Rightarrow> int \<Rightarrow> bool" where
  "int_cmp c i j = (case c of Lt \<Rightarrow> i < j | Gt \<Rightarrow> i > j | Le \<Rightarrow> i \<le> j | Ge \<Rightarrow> i \<ge> j)"

definition not_supported :: "cmp_op \<Rightarrow> pyval \<Rightarrow> pyval \<Rightarrow> py_error" where
  "not_supported c a b =
     TypeError (quoted (op_symbol c) @ '' not supported between instances of ''
                @ quoted (type_name a) @ '' and '' @ quoted (type_name b))"

fun py_ord :: "cmp_op \<Rightarrow> pyval \<Rightarrow> pyval \<Rightarrow> py_error + bool"
  and py_ord_list :: "cmp_op \<Rightarrow> pyval list \<Rightarrow> pyval list \<Rightarrow> py_error + bool" where
  "py_ord c (PList xs) (PList ys) = py_ord_list c xs ys"
| "py_ord c (PStr s) (PStr t) = Inr (int_cmp c (str_compare s t) 0)"
| "py_ord c a b =
     (case (num_of a, num_of b) of
        (Some i, Some j) \<Rightarrow> Inr (int_cmp c i j)
      | _ \<Rightarrow> Inl (not_supported c a b))"
| "py_ord_list c [] [] = Inr (int_cmp c 0 0)"
| "py_ord_list c [] (y # ys) = Inr (int_cmp c 0 1)"
| "py_ord_list c (x # xs) [] = Inr (int_cmp c 1 0)"
| "py_ord_list c (x # xs) (y # ys) =
     (if py_eq x y then py_ord_list c xs ys else py_ord c x y)"

text \<open>
  \<open>a in b\<close>, for \<open>b\<close> a list or a string (the only containers the evaluator lets
  through). A string accepts only a string on the left.
\<close>

definition py_in :: "pyval \<Rightarrow> pyval \<Rightarrow> py_error + bool" where
  "py_in a b =
     (case b of
        PList xs \<Rightarrow> Inr (list_ex (\<lambda>x. py_eq x a) xs)
      | PStr s \<Rightarrow>
          (case a of
             PStr sub \<Rightarrow> Inr (str_contains s sub)
           | _ \<Rightarrow> Inl (TypeError (quoted ''in <string>''
                                   @ '' requires string as left operand, not '' @ type_name a)))
      | _ \<Rightarrow> Inl (TypeError (''argument of type '' @ quoted (type_name b)
                              @ '' is not iterable'')))"

definition is_list :: "pyval \<Rightarrow> bool" where
  "is_list v = (case v of PList _ \<Rightarrow> True | _ \<Rightarrow> False)"

definition is_list_or_str :: "pyval \<Rightarrow> bool" where
  "is_list_or_str v = (case v of PList _ \<Rightarrow> True | PStr _ \<Rightarrow> True | _ \<Rightarrow> False)"

text \<open>\<open>d.get(k)\<close>, which is \<open>None\<close> for a missing key.\<close>

definition dict_get :: "attrs \<Rightarrow> string \<Rightarrow> pyval" where
  "dict_get d k = (case d k of Some v \<Rightarrow> v | None \<Rightarrow> PNone)"

definition facts_get :: "facts \<Rightarrow> dict_key \<Rightarrow> pyval" where
  "facts_get d k = (case d k of Some v \<Rightarrow> v | None \<Rightarrow> PNone)"

text \<open>\<open>k in d\<close> for an arbitrary value \<open>k\<close>: a list cannot be hashed.\<close>

definition dict_has :: "facts \<Rightarrow> pyval \<Rightarrow> py_error + bool" where
  "dict_has d k =
     (case key_of k of
        None \<Rightarrow> Inl (TypeError (''unhashable type: '' @ quoted ''list''))
      | Some hashed \<Rightarrow> Inr (d hashed \<noteq> None))"

text \<open>\<open>d[k]\<close>, which raises \<open>KeyError\<close> for a missing key.\<close>

definition dict_item :: "facts \<Rightarrow> pyval \<Rightarrow> py_error + pyval" where
  "dict_item d k =
     (case key_of k of
        None \<Rightarrow> Inl (TypeError (''unhashable type: '' @ quoted ''list''))
      | Some hashed \<Rightarrow>
          (case d hashed of Some v \<Rightarrow> Inr v | None \<Rightarrow> Inl (KeyError (py_repr k))))"

section \<open>Rule model and engine (logic/models.py, logic/rules.py)\<close>

text \<open>
  A leaf condition is a dictionary, as \<open>_evaluate_condition\<close> receives it: it reads the
  keys \<open>fact\<close>, \<open>operator\<close> and \<open>value\<close> with \<open>dict.get\<close>. The \<open>conditions\<close> field of
  a rule is a dictionary from \<open>AND\<close> or \<open>OR\<close> to a list of leaf conditions.
\<close>

type_synonym condition = attrs

record Rule =
  name :: string
  conditions :: "string \<rightharpoonup> condition list"
  action :: string
  reason_pass :: "string option"
  reason_fail :: "string option"
  jurisdiction :: "string option"

text \<open>The dictionary every evaluation step returns: \<open>{'matched': ..., 'reason': ...}\<close>.\<close>

record result =
  matched :: bool
  reason :: string

subsection \<open>Validators of the rule models\<close>

definition valid_operators :: "string list" where
  "valid_operators =
     [''EQUALS'', ''NOT_EQUALS'', ''GREATER_THAN'', ''LESS_THAN'',
      ''GREATER_THAN_EQUAL'', ''LESS_THAN_EQUAL'',
      ''IN'', ''NOT_IN'', ''CONTAINS'', ''NOT_CONTAINS'']"

text \<open>\<open>RuleCondition.validate_operator\<close>\<close>

definition validate_operator :: "string \<Rightarrow> py_error + string" where
  "validate_operator v =
     (if v \<notin> set valid_operators
      then Inl (ValueError (''Operator must be one of: ''
                            @ py_repr (PList (map PStr valid_operators))))
      else Inr v)"

definition valid_actions :: "string list" where
  "valid_actions = [''GRANT_YES'', ''GRANT_NO'', ''NO_DECISION'']"

text \<open>\<open>Rule.validate_action\<close>\<close>

definition validate_action :: "string \<Rightarrow> py_error + string" where
  "validate_action v =
     (if v \<notin> set valid_actions
      then Inl (ValueError (''Action must be one of: ''
                            @ py_repr (PList (map PStr valid_actions))))
      else Inr v)"

text \<open>
  \<open>RuleEngine._load_rules\<close>: a rule whose construction raises is logged and left out.
  The only validator of \<open>Rule\<close> is the one of its action; its \<open>conditions\<close> field is
  declared \<open>Dict[str, Any]\<close>, so \<open>RuleCondition\<close> and its operator check are never
  applied to the conditions of a loaded rule.
\<close>

definition load_rules :: "Rule list \<Rightarrow> Rule list" where
  "load_rules rules_data =
     filter (\<lambda>r. case validate_action (action r) of Inl _ \<Rightarrow> False | Inr _ \<Rightarrow> True) rules_data"

subsection \<open>Leaf conditions\<close>

text \<open>
  The operator dispatch of \<open>_evaluate_condition\<close>. \<open>None\<close> is the final \<open>else\<close>
  (unknown operator); \<open>Some (Inl e)\<close> is an exception raised inside the \<open>try\<close>.
\<close>

definition apply_operator :: "pyval \<Rightarrow> pyval \<Rightarrow> pyval \<Rightarrow> (py_error + bool) option" where
  "apply_operator operator actual_value v =
     (if operator = PStr ''EQUALS'' then Some (Inr (py_eq actual_value v))
      else if operator = PStr ''NOT_EQUALS'' then Some (Inr (\<not> py_eq actual_value v))
      else if operator = PStr ''GREATER_THAN'' then Some (py_ord Gt actual_value v)
      else if operator = PStr ''LESS_THAN'' then Some (py_ord Lt actual_value v)
      else if operator = PStr ''GREATER_THAN_OR_EQUAL_TO'' then Some (py_ord Ge actual_value v)
      else if operator = PStr ''LESS_THAN_OR_EQUAL_TO'' then Some (py_ord Le actual_value v)
      else if operator = PStr ''IN'' then
        Some (if is_list v then py_in actual_value v else Inr False)
      else if operator = PStr ''NOT_IN'' then
        Some (if is_list v then map_sum id Not (py_in actual_value v) else Inr False)
      else if operator = PStr ''CONTAINS'' then
        Some (if is_list_or_str actual_value then py_in v actual_value else Inr False)
      else if operator = PStr ''NOT_CONTAINS'' then
        Some (if is_list_or_str actual_value then map_sum id Not (py_in v actual_value)
              else Inr False)
      else None)"

text \<open>
  \<open>_evaluate_condition\<close>. The membership test \<open>fact not in context\<close> and the
  lookup \<open>context[fact]\<close> stand before the \<open>try\<close>, so their exceptions leave the
  function (\<open>Inl\<close>).
\<close>

definition evaluate_condition :: "condition \<Rightarrow> facts \<Rightarrow> py_error + result" where
  "evaluate_condition cond ctx =
     (let fact = dict_get cond ''fact'';
          operator = dict_get cond ''operator'';
          v = dict_get cond ''value''
      in case dict_has ctx fact of
           Inl e \<Rightarrow> Inl e
         | Inr False \<Rightarrow>
             Inr \<lparr>matched = False,
                  reason = ''Fact '' @ quoted (py_str fact) @ '' not found in context''\<rparr>
         | Inr True \<Rightarrow>
             (case dict_item ctx fact of
                Inl e \<Rightarrow> Inl e
              | Inr actual_value \<Rightarrow>
                  (case apply_operator operator actual_value v of
                     None \<Rightarrow>
                       Inr \<lparr>matched = False,
                            reason = ''Unknown operator: '' @ py_str operator\<rparr>
                   | Some (Inl e) \<Rightarrow>
                       Inr \<lparr>matched = False,
                            reason = ''Error evaluating condition: '' @ str_of_error e\<rparr>
                   | Some (Inr m) \<Rightarrow>
                       Inr \<lparr>matched = m,
                            reason = ''Condition '' @ py_str fact @ '' '' @ py_str operator
                                     @ '' '' @ py_str v @ '' = ''
                                     @ (if m then ''True'' else ''False'')\<rparr>)))"

subsection \<open>Condition groups and rules\<close>

text \<open>\<open>_evaluate_and_conditions\<close>: the result of the first leaf that does not match.\<close>

fun evaluate_and_conditions :: "condition list \<Rightarrow> facts \<Rightarrow> py_error + result" where
  "evaluate_and_conditions [] ctx =
     Inr \<lparr>matched = True, reason = ''All AND conditions passed''\<rparr>"
| "evaluate_and_conditions (c # cs) ctx =
     (case evaluate_condition c ctx of
        Inl e \<Rightarrow> Inl e
      | Inr res \<Rightarrow> if \<not> matched res then Inr res else evaluate_and_conditions cs ctx)"

text \<open>\<open>_evaluate_or_conditions\<close>: the result of the first leaf that matches.\<close>

fun evaluate_or_conditions :: "condition list \<Rightarrow> facts \<Rightarrow> py_error + result" where
  "evaluate_or_conditions [] ctx =
     Inr \<lparr>matched = False, reason = ''All OR conditions failed''\<rparr>"
| "evaluate_or_conditions (c # cs) ctx =
     (case evaluate_condition c ctx of
        Inl e \<Rightarrow> Inl e
      | Inr res \<Rightarrow> if matched res then Inr res else evaluate_or_conditions cs ctx)"

text \<open>\<open>template or default\<close>: a template that is \<open>None\<close> or empty gives the default.\<close>

definition or_default :: "string option \<Rightarrow> string \<Rightarrow> string" where
  "or_default template dflt =
     (case template of None \<Rightarrow> dflt | Some s \<Rightarrow> if s = [] then dflt else s)"

text \<open>\<open>_evaluate_rule\<close>\<close>

definition evaluate_rule :: "Rule \<Rightarrow> facts \<Rightarrow> py_error + result" where
  "evaluate_rule rule ctx =
     (case conditions rule ''AND'' of
        Some cs \<Rightarrow>
          (case evaluate_and_conditions cs ctx of
             Inl e \<Rightarrow> Inl e
           | Inr res \<Rightarrow>
               if matched res then
                 Inr \<lparr>matched = True,
                      reason = or_default (reason_pass rule)
                        (''All AND conditions passed for rule '' @ quoted (name rule))\<rparr>
               else
                 Inr \<lparr>matched = False,
                      reason = or_default (reason_fail rule)
                        (''AND condition failed: '' @ reason res)\<rparr>)
      | None \<Rightarrow>
          (case conditions rule ''OR'' of
             Some cs \<Rightarrow>
               (case evaluate_or_conditions cs ctx of
                  Inl e \<Rightarrow> Inl e
                | Inr res \<Rightarrow>
                    if matched res then
                      Inr \<lparr>matched = True,
                           reason = or_default (reason_pass rule)
                             (''OR condition passed for rule '' @ quoted (name rule))\<rparr>
                    else
                      Inr \<lparr>matched = False,
                           reason = or_default (reason_fail rule)
                             (''All OR conditions failed for rule '' @ quoted (name rule))\<rparr>)
           | None \<Rightarrow>
               Inr \<lparr>matched = False,
                    reason = ''Invalid rule structure for rule '' @ quoted (name rule)\<rparr>))"

subsection \<open>\<open>RuleEngine.evaluate\<close>\<close>

text \<open>
  \<open>rule.jurisdiction and rule.jurisdiction != context.get("jurisdiction")\<close>: the filter
  is set when it is neither \<open>None\<close> nor empty.
\<close>

definition skipped :: "Rule \<Rightarrow> facts \<Rightarrow> bool" where
  "skipped rule ctx =
     (case jurisdiction rule of
        None \<Rightarrow> False
      | Some j \<Rightarrow> j \<noteq> [] \<and> \<not> py_eq (PStr j) (facts_get ctx (KStr ''jurisdiction'')))"

definition finish :: "string list \<Rightarrow> string" where
  "finish reasoning_chain =
     (if reasoning_chain \<noteq> [] then join '' | '' reasoning_chain
      else ''No applicable rules found'')"

text \<open>
  The loop of \<open>evaluate\<close>, with the reasoning chain built so far. An exception of
  \<open>_evaluate_rule\<close> is caught: the chain gets an error entry and the loop goes on. A
  matching rule whose action is none of the three known ones returns nothing, and the loop
  goes on as well.
\<close>

fun evaluate_loop :: "Rule list \<Rightarrow> facts \<Rightarrow> string list \<Rightarrow> string \<times> string" where
  "evaluate_loop [] ctx chain = (''NO'', finish chain)"
| "evaluate_loop (rule # rules) ctx chain =
     (if skipped rule ctx then evaluate_loop rules ctx chain
      else
        (case evaluate_rule rule ctx of
           Inl e \<Rightarrow>
             evaluate_loop rules ctx
               (chain @ [''Rule '' @ quoted (name rule) @ '': Error - '' @ str_of_error e])
         | Inr res \<Rightarrow>
             (let chain' = chain @ [''Rule '' @ quoted (name rule) @ '': '' @ reason res]
              in if matched res then
                   (if action rule = ''GRANT_YES'' then (''YES'', join '' | '' chain')
                    else if action rule = ''GRANT_NO'' then (''NO'', join '' | '' chain')
                    else if action rule = ''NO_DECISION'' then (''NO'', join '' | '' chain')
                    else evaluate_loop rules ctx chain')
                 else evaluate_loop rules ctx chain')))"

definition evaluate :: "Rule list \<Rightarrow> facts \<Rightarrow> string \<times> string" where
  "evaluate rules ctx = evaluate_loop rules ctx []"

subsection \<open>Matching, as the theorems speak of it\<close>


definition rule_matched :: "Rule \<Rightarrow> facts \<Rightarrow> bool" where
  "rule_matched rule ctx = (case evaluate_rule rule ctx of Inl e \<Rightarrow> False | Inr res \<Rightarrow> matched res)"

text \<open>
  The jurisdiction filter in the words of the specification, written without reference
  to the engine's own test: a rule is to be skipped when its filter is set and does not
  equal the jurisdiction of the context. A filter is set when the rule's \<open>jurisdiction\<close>
  holds a string that is not empty; a rule without a filter is admitted in every context,
  a rule with a filter only in a context whose \<open>jurisdiction\<close> entry is that very string.
  A rule \<^emph>\<open>applies\<close> when its filter admits the context and it matches.
\<close>

definition filter_admits :: "Rule \<Rightarrow> facts \<Rightarrow> bool" where
  "filter_admits rule ctx =
     (case jurisdiction rule of
        None \<Rightarrow> True
      | Some j \<Rightarrow> j = [] \<or> ctx (KStr ''jurisdiction'') = Some (PStr j))"

definition rule_applies :: "Rule \<Rightarrow> facts \<Rightarrow> bool" where
  "rule_applies rule ctx = (filter_admits rule ctx \<and> rule_matched rule ctx)"

section \<open>CircuitBreaker (logic/connectors.py)\<close>

text \<open>
  The breaker reads the wall clock with \<open>datetime.now()\<close>. The clock reading is an
  argument of the two operations that read it, in whole seconds; the model assumes
  nothing about how one reading relates to the next.
\<close>

record CircuitBreaker =
  failure_threshold :: int
  timeout :: int
  failure_count :: int
  last_failure_time :: "int option"
  state :: string

definition CircuitBreaker_init :: "int \<Rightarrow> int \<Rightarrow> CircuitBreaker" where
  "CircuitBreaker_init threshold tmo =
     \<lparr>failure_threshold = threshold, timeout = tmo, failure_count = 0,
      last_failure_time = None, state = ''CLOSED''\<rparr>"

definition record_failure :: "int \<Rightarrow> CircuitBreaker \<Rightarrow> CircuitBreaker" where
  "record_failure now cb =
     (let cb1 = cb\<lparr>failure_count := failure_count cb + 1, last_failure_time := Some now\<rparr>
      in if failure_count cb1 \<ge> failure_threshold cb1 then cb1\<lparr>state := ''OPEN''\<rparr> else cb1)"

definition record_success :: "CircuitBreaker \<Rightarrow> CircuitBreaker" where
  "record_success cb = cb\<lparr>failure_count := 0, state := ''CLOSED''\<rparr>"

text \<open>\<open>can_execute\<close> returns its answer and the breaker, which it may move to HALF_OPEN.\<close>

definition can_execute :: "int \<Rightarrow> CircuitBreaker \<Rightarrow> bool \<times> CircuitBreaker" where
  "can_execute now cb =
     (if state cb = ''CLOSED'' then (True, cb)
      else if state cb = ''OPEN'' then
        (case last_failure_time cb of
           Some t \<Rightarrow>
             if now - t > timeout cb then (True, cb\<lparr>state := ''HALF_OPEN''\<rparr>)
             else (False, cb)
         | None \<Rightarrow> (False, cb))
      else (True, cb))"

text \<open>A call sequence on one breaker; the clock reading of each call is part of the call.\<close>

datatype cb_call = RecordFailure int | RecordSuccess | CanExecute int

fun cb_step :: "CircuitBreaker \<Rightarrow> cb_call \<Rightarrow> CircuitBreaker" where
  "cb_step cb (RecordFailure now) = record_failure now cb"
| "cb_step cb RecordSuccess = record_success cb"
| "cb_step cb (CanExecute now) = snd (can_execute now cb)"

definition cb_run :: "CircuitBreaker \<Rightarrow> cb_call list \<Rightarrow> CircuitBreaker" where
  "cb_run cb calls = foldl cb_step cb calls"

definition cb_inv :: "CircuitBreaker \<Rightarrow> bool" where
  "cb_inv cb =
     (state cb \<in> {''CLOSED'', ''OPEN'', ''HALF_OPEN''} \<and>
      (state cb \<noteq> ''CLOSED'' \<longrightarrow>
         failure_count cb \<ge> failure_threshold cb \<and> last_failure_time cb \<noteq> None))"

section \<open>Connectors (logic/connectors.py)\<close>

record EndpointConfig =
  url :: string
  http_method :: string
  auth_type :: string
  auth_token :: "string option"
  http_timeout :: int
  retries :: int

record DataConnector =
  config :: EndpointConfig
  circuit_breaker :: CircuitBreaker

text \<open>
  What \<open>response.json()\<close> returns: the body of a response is any JSON document, an
  object (a dictionary) or another value: an array, a string, a number, a boolean or
  \<open>null\<close>.
\<close>

datatype json = JsonDict facts | JsonValue pyval

text \<open>
  What one HTTP attempt of \<open>_make_request\<close> can do: the request or its status check
  raises; the status is fine but decoding the body raises (after \<open>record_success\<close>, inside
  the same \<open>try\<close>); or the body decodes. A failure carries the text of its exception and
  the clock reading \<open>record_failure\<close> takes.
\<close>

datatype attempt = RequestFailed string int | BodyFailed string int | Body json

text \<open>
  Everything outside the program that a fetch depends on: \<open>str.format\<close> on a URL
  template, the clock at the moment a source is asked, and the answers of the network, by
  source name, request and attempt number.
\<close>

record world =
  format_url :: "string \<Rightarrow> string \<Rightarrow> py_error + string"
  clock_at_call :: "string \<Rightarrow> int"
  respond :: "string \<Rightarrow> string \<Rightarrow> string \<Rightarrow> (string \<times> string) list \<Rightarrow> nat \<Rightarrow> attempt"

definition auth_headers :: "EndpointConfig \<Rightarrow> (string \<times> string) list" where
  "auth_headers cfg =
     (case auth_token cfg of
        None \<Rightarrow> []
      | Some tok \<Rightarrow>
          if tok = [] then []
          else if auth_type cfg = ''api_key'' then [(''X-API-Key'', tok)]
          else if auth_type cfg = ''bearer'' then [(''Authorization'', ''Bearer '' @ tok)]
          else [])"

text \<open>
  The retry loop of \<open>_make_request\<close>: \<open>k\<close> iterations of \<open>range(retries)\<close> are left and
  \<open>attempt\<close> is the loop variable. The result is what the call returns or raises, the
  breaker, and the number of requests sent. A loop that runs out (possible only when
  \<open>retries\<close> is not positive) falls off the end of the function, which returns \<open>None\<close>.
\<close>

fun retry_loop ::
  "nat \<Rightarrow> nat \<Rightarrow> int \<Rightarrow> (nat \<Rightarrow> attempt) \<Rightarrow> CircuitBreaker
   \<Rightarrow> (py_error + json option) \<times> CircuitBreaker \<times> nat" where
  "retry_loop 0 attempt n http cb = (Inr None, cb, 0)"
| "retry_loop (Suc k) attempt n http cb =
     (case http attempt of
        Body data \<Rightarrow> (Inr (Some data), record_success cb, 1)
      | RequestFailed msg now \<Rightarrow>
          (let cb' = record_failure now cb
           in if int attempt = n - 1
              then (Inl (Exception (''All '' @ str_of_int n @ '' attempts failed: '' @ msg)), cb', 1)
              else (case retry_loop k (Suc attempt) n http cb' of
                      (r, cb'', sent) \<Rightarrow> (r, cb'', Suc sent)))
      | BodyFailed msg now \<Rightarrow>
          (let cb' = record_failure now (record_success cb)
           in if int attempt = n - 1
              then (Inl (Exception (''All '' @ str_of_int n @ '' attempts failed: '' @ msg)), cb', 1)
              else (case retry_loop k (Suc attempt) n http cb' of
                      (r, cb'', sent) \<Rightarrow> (r, cb'', Suc sent))))"

text \<open>\<open>DataConnector._make_request\<close>, called for the source \<open>src\<close>.\<close>

definition make_request ::
  "world \<Rightarrow> string \<Rightarrow> DataConnector \<Rightarrow> string \<Rightarrow> string
   \<Rightarrow> (py_error + json option) \<times> DataConnector \<times> nat" where
  "make_request w src conn u m =
     (case can_execute (clock_at_call w src) (circuit_breaker conn) of
        (False, cb) \<Rightarrow>
          (Inl (Exception ''Circuit breaker is open''), conn\<lparr>circuit_breaker := cb\<rparr>, 0)
      | (True, cb) \<Rightarrow>
          (case retry_loop (nat (retries (config conn))) 0 (retries (config conn))
                  (respond w src m u (auth_headers (config conn))) cb of
             (r, cb', sent) \<Rightarrow> (r, conn\<lparr>circuit_breaker := cb'\<rparr>, sent)))"

text \<open>
  \<open>secure_data.update(data)\<close>. A dictionary is merged key by key and cannot fail. Any
  other value is iterated as a sequence of key-value pairs, and every pair is inserted as
  soon as it is read: an element that is no sequence, that does not have length two or
  whose key cannot be hashed raises, and the pairs inserted before it stay in the
  dictionary. The elements of a string are its characters, so only the empty string is a
  string of pairs. A value that cannot be iterated raises before anything is inserted.
  The result is the dictionary after the call and the exception, if one was raised.
\<close>

definition wrong_length :: "nat \<Rightarrow> nat \<Rightarrow> py_error" where
  "wrong_length i n =
     ValueError (''dictionary update sequence element #'' @ str_of_nat i @ '' has length ''
                 @ str_of_nat n @ ''; 2 is required'')"

definition pair_of :: "nat \<Rightarrow> pyval \<Rightarrow> py_error + dict_key \<times> pyval" where
  "pair_of i item =
     (case item of
        PList xs \<Rightarrow>
          (case xs of
             [k, v] \<Rightarrow>
               (case key_of k of
                  None \<Rightarrow> Inl (TypeError (''unhashable type: '' @ quoted ''list''))
                | Some hashed \<Rightarrow> Inr (hashed, v))
           | _ \<Rightarrow> Inl (wrong_length i (length xs)))
      | PStr s \<Rightarrow>
          (case s of
             [a, b] \<Rightarrow> Inr (KStr [a], PStr [b])
           | _ \<Rightarrow> Inl (wrong_length i (length s)))
      | _ \<Rightarrow>
          Inl (TypeError (''cannot convert dictionary update sequence element #''
                          @ str_of_nat i @ '' to a sequence'')))"

fun update_pairs :: "nat \<Rightarrow> pyval list \<Rightarrow> facts \<Rightarrow> facts \<times> py_error option" where
  "update_pairs i [] d = (d, None)"
| "update_pairs i (item # items) d =
     (case pair_of i item of
        Inl e \<Rightarrow> (d, Some e)
      | Inr (k, v) \<Rightarrow> update_pairs (Suc i) items (d(k \<mapsto> v)))"

definition dict_update :: "facts \<Rightarrow> json option \<Rightarrow> facts \<times> py_error option" where
  "dict_update d data =
     (case data of
        Some (JsonDict new) \<Rightarrow> (d ++ new, None)
      | Some (JsonValue (PList items)) \<Rightarrow> update_pairs 0 items d
      | Some (JsonValue (PStr s)) \<Rightarrow> update_pairs 0 (map (\<lambda>c. PStr [c]) s) d
      | Some (JsonValue other) \<Rightarrow>
          (d, Some (TypeError (quoted (type_name other) @ '' object is not iterable'')))
      | None \<Rightarrow> (d, Some (TypeError (quoted ''NoneType'' @ '' object is not iterable''))))"

text \<open>
  The body of the \<open>try\<close> in \<open>fetch_secure_data\<close> for one source: the dictionary
  \<open>secure_data\<close> as the body leaves it, the exception that ended it (if any, which the
  \<open>except\<close> clause logs), the connector and the number of requests sent.
\<close>

definition fetch_one ::
  "world \<Rightarrow> string \<Rightarrow> string \<Rightarrow> DataConnector \<Rightarrow> facts
   \<Rightarrow> facts \<times> py_error option \<times> DataConnector \<times> nat" where
  "fetch_one w code src conn secure_data =
     (case format_url w (url (config conn)) code of
        Inl e \<Rightarrow> (secure_data, Some e, conn, 0)
      | Inr u \<Rightarrow>
          (case make_request w src conn u (http_method (config conn)) of
             (Inl e, conn', sent) \<Rightarrow> (secure_data, Some e, conn', sent)
           | (Inr data, conn', sent) \<Rightarrow>
               (case dict_update secure_data data of
                  (secure_data', failure) \<Rightarrow> (secure_data', failure, conn', sent))))"

text \<open>
  \<open>DataConnectorManager.fetch_secure_data\<close>: the sources are asked one after the other,
  in the order of the connector dictionary; an exception of a source is logged and the
  loop continues with the dictionary as the source left it. The result is the merged
  data and the connectors with their breakers as the calls left them.
\<close>

fun fetch_loop ::
  "world \<Rightarrow> string \<Rightarrow> (string \<times> DataConnector) list \<Rightarrow> facts
   \<Rightarrow> facts \<times> (string \<times> DataConnector) list" where
  "fetch_loop w code [] secure_data = (secure_data, [])"
| "fetch_loop w code ((src, conn) # rest) secure_data =
     (case fetch_one w code src conn secure_data of
        (secure_data', failure, conn', sent) \<Rightarrow>
          (case fetch_loop w code rest secure_data' of
             (sd, conns) \<Rightarrow> (sd, (src, conn') # conns)))"

definition fetch_secure_data ::
  "world \<Rightarrow> (string \<times> DataConnector) list \<Rightarrow> string
   \<Rightarrow> facts \<times> (string \<times> DataConnector) list" where
  "fetch_secure_data w connectors code = fetch_loop w code connectors Map.empty"

text \<open>
  Whether a source fails in a fetch (its \<open>try\<close> body raises and the failure is logged),
  and what it writes into a dictionary that was empty before.
\<close>

definition source_fails :: "world \<Rightarrow> string \<Rightarrow> string \<times> DataConnector \<Rightarrow> bool" where
  "source_fails w code c =
     (fst (snd (fetch_one w code (fst c) (snd c) Map.empty)) \<noteq> None)"

definition source_data :: "world \<Rightarrow> string \<Rightarrow> string \<times> DataConnector \<Rightarrow> facts" where
  "source_data w code c = fst (fetch_one w code (fst c) (snd c) Map.empty)"

section \<open>Credentials (core/security.py, core/config.py)\<close>

text \<open>
  The hash functions of \<open>hashlib\<close>, the signing function behind \<open>jwt.encode\<close> and
  \<open>datetime.isoformat\<close> are library code: the model takes them as a parameter and
  assumes nothing about them. A token is the structure that the compact serialisation
  carries (algorithm header, claim set, signature), or a string that does not parse.
  Consequently \<open>jwt.decode\<close> is modelled by what the engine relies on: the token parses,
  its algorithm is an allowed one, its signature is the one the key gives for its claim
  set, its \<open>iat\<close> claim, when present, does not lie after the current time, and its
  \<open>exp\<close> claim, when present, lies after the current time. Times are whole seconds
  since the epoch.
\<close>

record settings =
  jwt_secret :: string
  jwt_algorithm :: string
  jwt_expiry_hours :: int

record 's library =
  sha256_hexdigest :: "string \<Rightarrow> string"
  sha512_hexdigest :: "string \<Rightarrow> string"
  jwt_sign :: "string \<Rightarrow> string \<Rightarrow> attrs \<Rightarrow> 's"
  isoformat :: "int \<Rightarrow> string"

datatype 's token = Malformed string | Signed string attrs 's

datatype jwt_error = ExpiredSignatureError | InvalidTokenError

definition jwt_encode :: "'s library \<Rightarrow> attrs \<Rightarrow> string \<Rightarrow> string \<Rightarrow> 's token" where
  "jwt_encode lib payload key algorithm = Signed algorithm payload (jwt_sign lib key algorithm payload)"

text \<open>
  The checks \<open>jwt.decode\<close> makes on the registered claims of a token whose signature is
  right, in the library's order: a token whose \<open>iat\<close> lies after the current time is not
  yet valid (\<open>ImmatureSignatureError\<close>, an \<open>InvalidTokenError\<close>); a token whose \<open>exp\<close>
  does not lie after the current time has expired. A claim that is not a number is
  refused.
\<close>

definition validate_iat :: "attrs \<Rightarrow> int \<Rightarrow> jwt_error option" where
  "validate_iat payload now =
     (case payload ''iat'' of
        None \<Rightarrow> None
      | Some (PInt iat) \<Rightarrow> if iat > now then Some InvalidTokenError else None
      | Some other \<Rightarrow> Some InvalidTokenError)"

definition validate_exp :: "attrs \<Rightarrow> int \<Rightarrow> jwt_error option" where
  "validate_exp payload now =
     (case payload ''exp'' of
        None \<Rightarrow> None
      | Some (PInt exp) \<Rightarrow> if exp \<le> now then Some ExpiredSignatureError else None
      | Some other \<Rightarrow> Some InvalidTokenError)"

definition jwt_decode ::
  "'s library \<Rightarrow> int \<Rightarrow> 's token \<Rightarrow> string \<Rightarrow> string list \<Rightarrow> jwt_error + attrs" where
  "jwt_decode lib now tok key algorithms =
     (case tok of
        Malformed s \<Rightarrow> Inl InvalidTokenError
      | Signed algorithm payload sg \<Rightarrow>
          if algorithm \<notin> set algorithms \<or> sg \<noteq> jwt_sign lib key algorithm payload
          then Inl InvalidTokenError
          else
            (case validate_iat payload now of
               Some e \<Rightarrow> Inl e
             | None \<Rightarrow>
                 (case validate_exp payload now of
                    Some e \<Rightarrow> Inl e
                  | None \<Rightarrow> Inr payload)))"

text \<open>
  \<open>datetime.utcnow()\<close> returns the wall clock of UTC as a datetime without a time zone,
  and \<open>timestamp()\<close> reads such a datetime as local time of the host. On a host whose
  local time is \<open>utc_offset\<close> seconds ahead of UTC (negative west of Greenwich) the stamp
  of the instant \<open>now\<close> is therefore \<open>now - utc_offset\<close>. The offset is taken to be the
  same at both instants that the function stamps.
\<close>

definition utcnow_timestamp :: "int \<Rightarrow> int \<Rightarrow> int" where
  "utcnow_timestamp utc_offset now = now - utc_offset"

text \<open>
  \<open>generate_verifiable_token\<close>, called at the instant \<open>now\<close> (seconds since the epoch,
  as the checking side counts them) on a host with the given offset from UTC.
\<close>

definition generate_verifiable_token ::
  "'s library \<Rightarrow> settings \<Rightarrow> int \<Rightarrow> int \<Rightarrow> string \<Rightarrow> string \<Rightarrow> string \<Rightarrow> string \<Rightarrow> string
   \<Rightarrow> string \<Rightarrow> 's token" where
  "generate_verifiable_token lib st utc_offset now v code j verification_id reasoning_hash
     request_hash =
     jwt_encode lib
       [''verdict'' \<mapsto> PStr v,
        ''secure_code'' \<mapsto> PStr code,
        ''jurisdiction'' \<mapsto> PStr j,
        ''verification_id'' \<mapsto> PStr verification_id,
        ''request_hash'' \<mapsto> PStr request_hash,
        ''issued_at'' \<mapsto> PStr (isoformat lib now),
        ''exp'' \<mapsto> PInt (utcnow_timestamp utc_offset (now + jwt_expiry_hours st * 3600)),
        ''iat'' \<mapsto> PInt (utcnow_timestamp utc_offset now),
        ''reasoning_hash'' \<mapsto> PStr reasoning_hash]
       (jwt_secret st) (jwt_algorithm st)"

text \<open>
  \<open>verify_token\<close>; \<open>now\<close> is the instant at which the token is checked, in seconds
  since the epoch (the library reads the clock with its time zone).
\<close>

definition verify_token :: "'s library \<Rightarrow> settings \<Rightarrow> int \<Rightarrow> 's token \<Rightarrow> py_error + attrs" where
  "verify_token lib st now tok =
     (case jwt_decode lib now tok (jwt_secret st) [jwt_algorithm st] of
        Inl ExpiredSignatureError \<Rightarrow> Inl (ValueError ''Token has expired'')
      | Inl InvalidTokenError \<Rightarrow> Inl (ValueError ''Invalid token'')
      | Inr payload \<Rightarrow> Inr payload)"

text \<open>\<open>client_id or 'none'\<close>: an absent and an empty client id both give \<open>none\<close>.\<close>

definition or_none :: "string option \<Rightarrow> string" where
  "or_none cid = (case cid of None \<Rightarrow> ''none'' | Some c \<Rightarrow> if c = [] then ''none'' else c)"

text \<open>
  The string that is hashed into \<open>request_hash\<close>. The same f-string stands in
  \<open>process_request\<close> and in \<open>verify_original_request\<close>.
\<close>

definition request_data :: "string \<Rightarrow> string \<Rightarrow> string option \<Rightarrow> string" where
  "request_data code j cid = code @ '':'' @ j @ '':'' @ or_none cid"

section \<open>Request integrity check (api/endpoints.py)\<close>



section \<open>The engine (core/stateless_engine.py)\<close>

text \<open>
  The request's \<open>jurisdiction\<close> field is called \<open>request_jurisdiction\<close> here, the name
  \<open>jurisdiction\<close> being the rule's. The answers are a dictionary that the validation
  iterates, so they are an association list in the order of the dictionary.
\<close>

record VerificationRequest =
  secure_code :: string
  request_jurisdiction :: string
  client_id :: "string option"
  security_answers :: "(string \<times> string) list option"

record VerificationResponse =
  verdict :: string
  jwt_token :: string
  qr_code :: string

text \<open>The dictionary \<open>{'valid': ..., 'reason': ...}\<close> of the answer validation.\<close>

record validation =
  valid :: bool
  validation_reason :: string

definition valid_fields :: "string list" where
  "valid_fields =
     [''car_registration'', ''first_movie_seen'', ''first_pet_name'',
      ''mothers_maiden_name'', ''first_school_name'', ''favorite_color'', ''birth_town'']"

text \<open>
  \<open>_validate_security_answers\<close>. The loop returns in its first iteration, so only the
  first answer is looked at. \<open>secure_data.get(field, '')\<close> may be a value that is not a
  string; calling \<open>strip\<close> on it raises \<open>AttributeError\<close>, which the \<open>except\<close> clause
  turns into an invalid result.
\<close>

definition validate_security_answers :: "(string \<times> string) list \<Rightarrow> facts \<Rightarrow> validation" where
  "validate_security_answers provided_answers secure_data =
     (case provided_answers of
        [] \<Rightarrow> \<lparr>valid = False, validation_reason = ''No security answer provided''\<rparr>
      | (field, provided_answer) # others \<Rightarrow>
          if field \<notin> set valid_fields then
            \<lparr>valid = False, validation_reason = ''Invalid security question field: '' @ field\<rparr>
          else if provided_answer = [] \<or> strip provided_answer = [] then
            \<lparr>valid = False, validation_reason = ''Empty security answer for: '' @ field\<rparr>
          else
            (case (case secure_data (KStr field) of None \<Rightarrow> PStr [] | Some x \<Rightarrow> x) of
               PStr stored_answer \<Rightarrow>
                 if lower (strip provided_answer) \<noteq> lower (strip stored_answer) then
                   \<lparr>valid = False,
                    validation_reason = ''Security answer mismatch for: '' @ field\<rparr>
                 else
                   \<lparr>valid = True,
                    validation_reason = ''Security answer validated successfully for: '' @ field\<rparr>
             | other \<Rightarrow>
                 \<lparr>valid = False,
                  validation_reason = ''Security validation error: '' @ quoted (type_name other)
                    @ '' object has no attribute '' @ quoted ''strip''\<rparr>))"

text \<open>
  The fact context of \<open>process_request\<close>: the three request fields, updated with the
  fetched data when there is any.
\<close>

definition build_context :: "VerificationRequest \<Rightarrow> facts \<Rightarrow> facts" where
  "build_context request secure_data =
     (let ctx = [KStr ''secure_code'' \<mapsto> PStr (secure_code request),
                 KStr ''jurisdiction'' \<mapsto> PStr (request_jurisdiction request),
                 KStr ''client_id'' \<mapsto>
                   (case client_id request of None \<Rightarrow> PNone | Some c \<Rightarrow> PStr c)]
      in if secure_data \<noteq> Map.empty then ctx ++ secure_data else ctx)"

text \<open>
  What a run of \<open>process_request\<close> does besides returning: it fetches, it may validate
  the answers, it may evaluate the rules (with the verdict and reasoning obtained), and
  it always cleans up.
\<close>

datatype event = Fetched | AnswersValidated bool | RulesEvaluated string string | CleanedUp

text \<open>
  \<open>process_request\<close>, for an engine with the given connectors and loaded rules. The
  wrappers \<open>_fetch_secure_data\<close> and \<open>_evaluate_rules\<close> catch exceptions of calls that
  raise none in this model. After the rules are evaluated the function computes the two
  hashes and calls \<open>generate_verifiable_token\<close>; the module imports \<open>generate_token\<close>
  and \<open>generate_qr_code\<close> only, so the call raises \<open>NameError\<close>, which the \<open>except\<close>
  clause logs and raises again.
\<close>

definition process_request ::
  "world \<Rightarrow> (string \<times> DataConnector) list \<Rightarrow> Rule list \<Rightarrow> VerificationRequest
   \<Rightarrow> event list \<times> (py_error + VerificationResponse)" where
  "process_request w connectors rules request =
     (let secure_data = fst (fetch_secure_data w connectors (secure_code request));
          ctx = build_context request secure_data;
          answers = (case security_answers request of None \<Rightarrow> [] | Some a \<Rightarrow> a);
          validated = (secure_data \<noteq> Map.empty \<and> answers \<noteq> [])
      in if validated \<and> \<not> valid (validate_security_answers answers secure_data) then
           ([Fetched, AnswersValidated False, CleanedUp],
            Inr \<lparr>verdict = ''NO'', jwt_token = [], qr_code = []\<rparr>)
         else
           (case evaluate rules ctx of
              (v, reasoning) \<Rightarrow>
                ([Fetched] @ (if validated then [AnswersValidated True] else [])
                 @ [RulesEvaluated v reasoning, CleanedUp],
                 Inl (NameError (''name '' @ quoted ''generate_verifiable_token''
                                 @ '' is not defined'')))))"

section \<open>Example data\<close>

text \<open>
  Concrete inputs on which the theorems below are instantiated: a connector as
  \<open>DataConnectorManager\<close> builds it, and a world in which the source \<open>a\<close> is down while
  \<open>b\<close> and \<open>c\<close> answer with different values of the same attribute.
\<close>

definition example_connector :: DataConnector where
  "example_connector =
     \<lparr>config = \<lparr>url = ''http://source/{secure_code}'', http_method = ''GET'',
                 auth_type = ''none'', auth_token = None, http_timeout = 30, retries = 3\<rparr>,
      circuit_breaker = CircuitBreaker_init 5 60\<rparr>"

definition example_world :: world where
  "example_world =
     \<lparr>format_url = (\<lambda>template code. Inr (template @ code)),
      clock_at_call = (\<lambda>src. 0),
      respond = (\<lambda>src m u headers attempt.
        if src = ''a'' then RequestFailed ''connection refused'' (int attempt)
        else if src = ''b'' then Body (JsonDict [KStr ''age'' \<mapsto> PInt 20])
        else Body (JsonDict [KStr ''age'' \<mapsto> PInt 30]))\<rparr>"

text \<open>
  A world with one source whose body is the JSON array \<open>[["age", 20], 5]\<close>: its first
  element is a pair, its second is not.
\<close>

definition array_world :: world where
  "array_world =
     \<lparr>format_url = (\<lambda>template code. Inr (template @ code)),
      clock_at_call = (\<lambda>src. 0),
      respond = (\<lambda>src m u headers attempt.
        Body (JsonValue (PList [PList [PStr ''age'', PInt 20], PInt 5])))\<rparr>"

text \<open>
  A rule list as it stands in the configuration, and a fact context. The first entry
  refuses everybody over 18 in the jurisdiction US. The second entry has an action the
  validator refuses, so \<open>_load_rules\<close> drops it.
\<close>

definition age_condition :: "string \<Rightarrow> int \<Rightarrow> condition" where
  "age_condition operator n =
     [''fact'' \<mapsto> PStr ''age'', ''operator'' \<mapsto> PStr operator, ''value'' \<mapsto> PInt n]"

definition tier_condition :: condition where
  "tier_condition =
     [''fact'' \<mapsto> PStr ''tier'', ''operator'' \<mapsto> PStr ''EQUALS'', ''value'' \<mapsto> PStr ''gold'']"

definition us_rule :: Rule where
  "us_rule = \<lparr>name = ''us_only'', conditions = [''AND'' \<mapsto> [age_condition ''GREATER_THAN'' 18]],
              action = ''GRANT_NO'', reason_pass = None, reason_fail = None,
              jurisdiction = Some ''US''\<rparr>"

definition unknown_action_rule :: Rule where
  "unknown_action_rule =
     \<lparr>name = ''maybe'', conditions = [''AND'' \<mapsto> []], action = ''GRANT_MAYBE'',
      reason_pass = None, reason_fail = None, jurisdiction = None\<rparr>"

definition minor_rule :: Rule where
  "minor_rule = \<lparr>name = ''minor'', conditions = [''AND'' \<mapsto> [age_condition ''LESS_THAN'' 18]],
                 action = ''GRANT_NO'', reason_pass = None, reason_fail = None,
                 jurisdiction = None\<rparr>"

definition adult_rule :: Rule where
  "adult_rule = \<lparr>name = ''adult'', conditions = [''AND'' \<mapsto> [age_condition ''GREATER_THAN'' 18]],
                 action = ''GRANT_YES'', reason_pass = None, reason_fail = None,
                 jurisdiction = None\<rparr>"

definition adult_or_gold_rule :: Rule where
  "adult_or_gold_rule =
     \<lparr>name = ''adult_or_gold'',
      conditions = [''OR'' \<mapsto> [age_condition ''GREATER_THAN'' 18, tier_condition]],
      action = ''NO_DECISION'', reason_pass = None, reason_fail = None, jurisdiction = None\<rparr>"

definition example_rules_data :: "Rule list" where
  "example_rules_data = [us_rule, unknown_action_rule, minor_rule, adult_rule, adult_or_gold_rule]"

definition example_context :: facts where
  "example_context =
     [KStr ''secure_code'' \<mapsto> PStr ''ABC'', KStr ''jurisdiction'' \<mapsto> PStr ''UK'',
      KStr ''client_id'' \<mapsto> PNone, KStr ''age'' \<mapsto> PInt 20]"


text \<open>
  The default settings of \<open>core/config.py\<close>, and stand-ins for the library functions.
\<close>

definition example_settings :: settings where
  "example_settings =
     \<lparr>jwt_secret = ''your-super-secret-jwt-key-that-is-at-least-32-characters-long'',
      jwt_algorithm = ''HS256'', jwt_expiry_hours = 24\<rparr>"

definition example_library :: "(string \<times> attrs) library" where
  "example_library =
     \<lparr>sha256_hexdigest = (\<lambda>s. ''sha256:'' @ s),
      sha512_hexdigest = (\<lambda>s. ''sha512:'' @ s),
      jwt_sign = (\<lambda>key algorithm payload. (key @ algorithm, payload)),
      isoformat = (\<lambda>t. str_of_int t)\<rparr>"



text \<open>
  The token that a host with the given offset from UTC issues at the instant 0 for the
  verdict \<open>YES\<close>, the verification id \<open>id-1\<close> and the reasoning \<open>granted\<close>.
\<close>

definition host_token :: "int \<Rightarrow> (string \<times> attrs) token" where
  "host_token utc_offset =
     generate_verifiable_token example_library example_settings utc_offset 0 ''YES'' ''ABC''
       ''UK'' ''id-1''
       (sha512_hexdigest example_library ''granted'')
       (sha256_hexdigest example_library (request_data ''ABC'' ''UK'' None))"

text \<open>
  Requests: one without answers, and three with one answer each. A rule that grants
  every request of jurisdiction UK. A world with one source that answers with a stored
  colour.
\<close>

definition plain_request :: VerificationRequest where
  "plain_request =
     \<lparr>secure_code = ''ABC'', request_jurisdiction = ''UK'', client_id = None,
      security_answers = None\<rparr>"

definition answering :: "string \<Rightarrow> string \<Rightarrow> VerificationRequest" where
  "answering field answer = plain_request\<lparr>security_answers := Some [(field, answer)]\<rparr>"

definition uk_rule :: Rule where
  "uk_rule =
     \<lparr>name = ''uk'',
      conditions = [''AND'' \<mapsto> [[''fact'' \<mapsto> PStr ''jurisdiction'',
                                ''operator'' \<mapsto> PStr ''EQUALS'', ''value'' \<mapsto> PStr ''UK'']]],
      action = ''GRANT_YES'', reason_pass = None, reason_fail = None, jurisdiction = None\<rparr>"

definition colour_world :: world where
  "colour_world =
     \<lparr>format_url = (\<lambda>template code. Inr (template @ code)),
      clock_at_call = (\<lambda>src. 0),
      respond = (\<lambda>src m u headers attempt.
        Body (JsonDict [KStr ''favorite_color'' \<mapsto> PStr '' Blue '',
                        KStr ''birth_town'' \<mapsto> PInt 7]))\<rparr>"

section \<open>Theorems\<close>

subsection \<open>CircuitBreaker\<close>

lemma cb_inv_init: "cb_inv (CircuitBreaker_init threshold tmo)"
  by (simp add: cb_inv_def CircuitBreaker_init_def)

lemma cb_inv_step: "cb_inv cb \<Longrightarrow> cb_inv (cb_step cb c)"
  by (cases c)
     (auto simp: cb_inv_def record_failure_def record_success_def can_execute_def Let_def
           split: option.splits if_splits)

lemma cb_inv_foldl: "cb_inv cb \<Longrightarrow> cb_inv (foldl cb_step cb calls)"
  by (induction calls arbitrary: cb) (simp_all add: cb_inv_step)


text \<open>
  Claim C10. Every breaker state reached from a freshly constructed breaker (any threshold,
  any timeout) by any sequence of \<open>record_failure\<close>, \<open>record_success\<close> and
  \<open>can_execute\<close> calls, at any clock readings, has a state among CLOSED, OPEN and
  HALF_OPEN; when the state is not CLOSED the failure count has reached the threshold and
  the time of the last failure is set; so one more \<open>record_failure\<close> in HALF_OPEN
  leads to OPEN.
\<close>

theorem circuit_breaker_invariant:
  "state (cb_run (CircuitBreaker_init threshold tmo) calls) \<in> {''CLOSED'', ''OPEN'', ''HALF_OPEN''}
   \<and> (state (cb_run (CircuitBreaker_init threshold tmo) calls) \<noteq> ''CLOSED'' \<longrightarrow>
        failure_count (cb_run (CircuitBreaker_init threshold tmo) calls)
          \<ge> failure_threshold (cb_run (CircuitBreaker_init threshold tmo) calls)
        \<and> last_failure_time (cb_run (CircuitBreaker_init threshold tmo) calls) \<noteq> None)
   \<and> (state (cb_run (CircuitBreaker_init threshold tmo) calls) = ''HALF_OPEN'' \<longrightarrow>
        state (record_failure now (cb_run (CircuitBreaker_init threshold tmo) calls)) = ''OPEN'')"
proof -
  define cb where "cb = cb_run (CircuitBreaker_init threshold tmo) calls"
  have inv: "cb_inv cb"
    unfolding cb_def cb_run_def by (rule cb_inv_foldl) (rule cb_inv_init)
  have half: "state (record_failure now cb) = ''OPEN''" if "state cb = ''HALF_OPEN''"
    using inv that by (simp add: cb_inv_def record_failure_def Let_def)
  show ?thesis
    using inv half unfolding cb_def [symmetric] cb_inv_def by blast
qed

theorem circuit_breaker_invariant_witness:
  "state (cb_run (CircuitBreaker_init 5 60)
      [RecordFailure 1, RecordFailure 2, RecordFailure 3, RecordFailure 4, RecordFailure 5,
       CanExecute 66]) = ''HALF_OPEN''
   \<and> failure_count (cb_run (CircuitBreaker_init 5 60)
      [RecordFailure 1, RecordFailure 2, RecordFailure 3, RecordFailure 4, RecordFailure 5,
       CanExecute 66]) \<ge> 5
   \<and> last_failure_time (cb_run (CircuitBreaker_init 5 60)
      [RecordFailure 1, RecordFailure 2, RecordFailure 3, RecordFailure 4, RecordFailure 5,
       CanExecute 66]) \<noteq> None
   \<and> state (record_failure 67 (cb_run (CircuitBreaker_init 5 60)
      [RecordFailure 1, RecordFailure 2, RecordFailure 3, RecordFailure 4, RecordFailure 5,
       CanExecute 66])) = ''OPEN''"
proof -
  have run: "cb_run (CircuitBreaker_init 5 60)
      [RecordFailure 1, RecordFailure 2, RecordFailure 3, RecordFailure 4, RecordFailure 5,
       CanExecute 66]
     = \<lparr>failure_threshold = 5, timeout = 60, failure_count = 5,
        last_failure_time = Some 5, state = ''HALF_OPEN''\<rparr>"
    by (simp add: cb_run_def CircuitBreaker_init_def record_failure_def can_execute_def Let_def)
  show ?thesis
    using circuit_breaker_invariant [of 5 60
      "[RecordFailure 1, RecordFailure 2, RecordFailure 3, RecordFailure 4, RecordFailure 5,
        CanExecute 66]" 67]
    unfolding run by simp
qed











subsection \<open>Fan-out fetch\<close>

text \<open>
  \<open>dict.update\<close> adds to the dictionary it is given: what it inserts and whether it
  raises do not depend on what the dictionary held before.
\<close>

lemma update_pairs_add:
  "update_pairs i items d
     = (d ++ fst (update_pairs i items Map.empty), snd (update_pairs i items Map.empty))"
proof (induction items arbitrary: i d)
  case Nil
  show ?case by simp
next
  case (Cons item items)
  show ?case
  proof (cases "pair_of i item")
    case (Inl e)
    then show ?thesis by simp
  next
    case (Inr kv)
    obtain k v where kv: "kv = (k, v)" by (cases kv)
    let ?rest = "update_pairs (Suc i) items Map.empty"
    have step: "update_pairs i (item # items) m = update_pairs (Suc i) items (m(k \<mapsto> v))"
      for m
      using Inr kv by simp
    have left: "update_pairs i (item # items) d = (d(k \<mapsto> v) ++ fst ?rest, snd ?rest)"
      unfolding step by (rule Cons.IH)
    have right: "update_pairs i (item # items) Map.empty = ([k \<mapsto> v] ++ fst ?rest, snd ?rest)"
      unfolding step by (rule Cons.IH)
    have "d(k \<mapsto> v) ++ fst ?rest = d ++ ([k \<mapsto> v] ++ fst ?rest)"
      by (simp add: map_add_assoc [symmetric])
    then show ?thesis
      unfolding left right by simp
  qed
qed

lemma dict_update_add:
  "dict_update d data
     = (d ++ fst (dict_update Map.empty data), snd (dict_update Map.empty data))"
proof (cases data)
  case None
  then show ?thesis by (simp add: dict_update_def)
next
  case (Some body)
  show ?thesis
  proof (cases body)
    case (JsonDict new)
    with Some show ?thesis by (simp add: dict_update_def)
  next
    case (JsonValue v)
    with Some show ?thesis
      using update_pairs_add [of 0 _ d]
      by (cases v) (simp_all add: dict_update_def)
  qed
qed

lemma fetch_one_add:
  "fetch_one w code src conn sd
     = (sd ++ source_data w code (src, conn), snd (fetch_one w code src conn Map.empty))"
  using dict_update_add [of sd]
  by (auto simp: fetch_one_def source_data_def split: sum.splits prod.splits)

lemma fetch_loop_step:
  "fst (fetch_loop w code (c # rest) sd)
     = fst (fetch_loop w code rest (sd ++ source_data w code c))"
proof (cases c)
  case (Pair src conn)
  obtain failure conn' sent
    where "snd (fetch_one w code src conn Map.empty) = (failure, conn', sent)"
    by (cases "snd (fetch_one w code src conn Map.empty)")
  with Pair show ?thesis
    using fetch_one_add [of w code src conn sd]
    by (simp split: prod.splits)
qed

lemma fetch_loop_merge:
  "fst (fetch_loop w code conns sd) = foldl (++) sd (map (source_data w code) conns)"
proof (induction conns arbitrary: sd)
  case Nil
  show ?case by simp
next
  case (Cons c conns)
  show ?case
    unfolding fetch_loop_step Cons.IH by simp
qed

text \<open>
  \<open>fetch_secure_data\<close> has no failing outcome: an exception of a source (a URL template
  that does not format, an open breaker, retries used up, a body that \<open>update\<close> refuses)
  is logged and the loop goes on. For every world, connector list and code the result is
  the empty dictionary updated, in the order of the connector list, with what each source
  wrote, so that a later source wins over an earlier one.
\<close>

lemma fetch_secure_data_fold:
  "fst (fetch_secure_data w conns code) = foldl (++) Map.empty (map (source_data w code) conns)"
  by (simp add: fetch_secure_data_def fetch_loop_merge)

text \<open>
  A source that fails before \<open>update\<close> is called writes nothing, and so does one whose
  body is refused by \<open>update\<close>, unless the body is an array.
\<close>

lemma update_chars_fails_first:
  "update_pairs i (map (\<lambda>c. PStr [c]) s) d = (d, if s = [] then None else Some (wrong_length i 1))"
  by (cases s) (simp_all add: pair_of_def)

lemma failing_source_writes_nothing:
  assumes "snd (dict_update d data) \<noteq> None"
    and "\<forall>items. data \<noteq> Some (JsonValue (PList items))"
  shows "fst (dict_update d data) = d"
proof (cases data)
  case None
  then show ?thesis by (simp add: dict_update_def)
next
  case (Some body)
  show ?thesis
  proof (cases body)
    case (JsonDict new)
    with Some assms show ?thesis by (simp add: dict_update_def)
  next
    case (JsonValue v)
    with Some assms show ?thesis
      by (cases v) (simp_all add: dict_update_def update_chars_fails_first)
  qed
qed

lemma example_a:
  "fetch_one example_world ''ABC'' ''a'' example_connector Map.empty
   = (Map.empty, Some (Exception ''All 3 attempts failed: connection refused''),
      example_connector\<lparr>circuit_breaker :=
        \<lparr>failure_threshold = 5, timeout = 60, failure_count = 3,
         last_failure_time = Some 2, state = ''CLOSED''\<rparr>\<rparr>, 3)"
  by (simp add: fetch_one_def make_request_def example_world_def example_connector_def
      CircuitBreaker_init_def can_execute_def record_failure_def Let_def eval_nat_numeral
      str_of_int_def str_of_nat.simps auth_headers_def)

lemma example_sources:
  "source_data example_world ''ABC'' (''a'', example_connector) = Map.empty"
  "source_data example_world ''ABC'' (''b'', example_connector) = [KStr ''age'' \<mapsto> PInt 20]"
  "source_data example_world ''ABC'' (''c'', example_connector) = [KStr ''age'' \<mapsto> PInt 30]"
  by (simp_all add: source_data_def fetch_one_def make_request_def example_world_def
      example_connector_def CircuitBreaker_init_def can_execute_def record_failure_def
      record_success_def dict_update_def Let_def eval_nat_numeral auth_headers_def)

lemma example_fetch:
  "fst (fetch_secure_data example_world
         [(''b'', example_connector), (''a'', example_connector), (''c'', example_connector)]
         ''ABC'') = [KStr ''age'' \<mapsto> PInt 30]"
  by (simp add: fetch_secure_data_fold example_sources)

text \<open>
  Claim C7. The claim asks that a failing source contributes no attributes and that a
  fetch in which every source fails returns the empty map. The loop of
  \<open>fetch_secure_data\<close> calls \<open>secure_data.update(data)\<close> inside the \<open>try\<close>, on the
  dictionary that collects the result, and \<open>update\<close> inserts the pairs of a sequence one
  by one. A source that answers with the JSON array \<open>[["age", 20], 5]\<close> makes \<open>update\<close>
  insert \<open>age = 20\<close> and then raise \<open>TypeError\<close> on the second element: the source is
  logged as failed, its attribute stays. With this source alone every source of the fetch
  fails and the result is not empty.
\<close>

theorem failed_source_leaves_attributes:
  "fetch_one array_world ''ABC'' ''a'' example_connector Map.empty
     = ([KStr ''age'' \<mapsto> PInt 20],
        Some (TypeError ''cannot convert dictionary update sequence element #1 to a sequence''),
        example_connector, 1)
   \<and> source_fails array_world ''ABC'' (''a'', example_connector)
   \<and> fst (fetch_secure_data array_world [(''a'', example_connector)] ''ABC'')
       = [KStr ''age'' \<mapsto> PInt 20]"
proof -
  have one: "fetch_one array_world ''ABC'' ''a'' example_connector Map.empty
     = ([KStr ''age'' \<mapsto> PInt 20],
        Some (TypeError ''cannot convert dictionary update sequence element #1 to a sequence''),
        example_connector, 1)"
    by (simp add: fetch_one_def make_request_def array_world_def example_connector_def
        CircuitBreaker_init_def can_execute_def record_success_def dict_update_def
        pair_of_def Let_def eval_nat_numeral auth_headers_def str_of_nat.simps)
  then have "source_fails array_world ''ABC'' (''a'', example_connector)"
    by (simp add: source_fails_def)
  moreover from one
  have "fst (fetch_secure_data array_world [(''a'', example_connector)] ''ABC'')
       = [KStr ''age'' \<mapsto> PInt 20]"
    by (simp add: fetch_secure_data_def)
  ultimately show ?thesis using one by simp
qed


subsection \<open>Rule evaluation\<close>

lemma load_rules_actions:
  "r \<in> set (load_rules rules_data) \<Longrightarrow> action r \<in> set valid_actions"
  by (auto simp: load_rules_def validate_action_def split: if_splits)

text \<open>
  The test by which the loop of \<open>evaluate\<close> skips a rule is the jurisdiction filter of
  the specification: a rule is skipped exactly when its filter does not admit the context.
\<close>

lemma skipped_filter:
  "skipped rule ctx \<longleftrightarrow> \<not> filter_admits rule ctx"
  by (cases "ctx (KStr ''jurisdiction'')")
     (auto simp: skipped_def filter_admits_def facts_get_def split: option.splits)

lemma filter_admits_skipped:
  "filter_admits rule ctx \<longleftrightarrow> \<not> skipped rule ctx"
  by (simp add: skipped_filter)

lemma evaluate_loop_no_apply:
  "\<not> rule_applies r ctx \<Longrightarrow>
   \<exists>chain'. \<forall>rs. evaluate_loop (r # rs) ctx chain = evaluate_loop rs ctx chain'"
  by (cases "evaluate_rule r ctx")
     (auto simp: rule_applies_def rule_matched_def filter_admits_skipped Let_def)

lemma evaluate_loop_apply:
  assumes "rule_applies r ctx" and "action r \<in> set valid_actions"
  shows "evaluate_loop (r # rs) ctx chain = evaluate_loop [r] ctx chain
    \<and> ((action r = ''GRANT_YES'' \<and> fst (evaluate_loop (r # rs) ctx chain) = ''YES'')
       \<or> (action r = ''GRANT_NO'' \<and> fst (evaluate_loop (r # rs) ctx chain) = ''NO'')
       \<or> (action r = ''NO_DECISION'' \<and> fst (evaluate_loop (r # rs) ctx chain) = ''NO''))"
  using assms
  by (cases "evaluate_rule r ctx")
     (auto simp: rule_applies_def rule_matched_def filter_admits_skipped Let_def
        valid_actions_def)

lemma evaluate_loop_first:
  assumes "\<forall>r \<in> set rules. action r \<in> set valid_actions"
  shows "(case find (\<lambda>r. rule_applies r ctx) rules of
            None \<Rightarrow> fst (evaluate_loop rules ctx chain) = ''NO''
          | Some r \<Rightarrow>
              ((action r = ''GRANT_YES'' \<and> fst (evaluate_loop rules ctx chain) = ''YES'')
               \<or> (action r = ''GRANT_NO'' \<and> fst (evaluate_loop rules ctx chain) = ''NO'')
               \<or> (action r = ''NO_DECISION'' \<and> fst (evaluate_loop rules ctx chain) = ''NO''))
              \<and> evaluate_loop rules ctx chain
                  = evaluate_loop (takeWhile (\<lambda>r. \<not> rule_applies r ctx) rules @ [r]) ctx chain)"
  using assms
proof (induction rules arbitrary: chain)
  case Nil
  show ?case by simp
next
  case (Cons r rules)
  show ?case
  proof (cases "rule_applies r ctx")
    case True
    with Cons.prems evaluate_loop_apply [of r ctx rules chain] show ?thesis
      by (auto simp del: evaluate_loop.simps)
  next
    case False
    from evaluate_loop_no_apply [OF False, of chain]
    obtain chain' where step: "\<And>rs. evaluate_loop (r # rs) ctx chain = evaluate_loop rs ctx chain'"
      by blast
    from Cons.prems have "\<forall>r \<in> set rules. action r \<in> set valid_actions" by simp
    from Cons.IH [OF this, of chain'] False show ?thesis
      by (auto simp add: step simp del: evaluate_loop.simps split: option.splits)
  qed
qed

text \<open>
  Claim C3. For every fact context and every rule list that \<open>_load_rules\<close> produced:
  when some rule applies (it has no jurisdiction filter or its filter equals the
  jurisdiction of the context, and its condition group matches), the verdict of
  \<open>evaluate\<close> is that of the first such rule in list order, with GRANT_YES giving YES
  and GRANT_NO and NO_DECISION giving NO, and the whole result (verdict and reasoning)
  equals the result on the list cut off after that rule, so no later rule has any part in
  it. When no rule applies the verdict is NO. Which rules the filter admits is fixed by
  \<open>filter_admits\<close>, not by the test of the loop: the statement fails for a loop that skips
  more rules or fewer.
\<close>

theorem evaluate_first_match:
  assumes "rules = load_rules rules_data"
  shows "(case find (\<lambda>r. rule_applies r ctx) rules of
            None \<Rightarrow> fst (evaluate rules ctx) = ''NO''
          | Some r \<Rightarrow>
              ((action r = ''GRANT_YES'' \<and> fst (evaluate rules ctx) = ''YES'')
               \<or> (action r = ''GRANT_NO'' \<and> fst (evaluate rules ctx) = ''NO'')
               \<or> (action r = ''NO_DECISION'' \<and> fst (evaluate rules ctx) = ''NO''))
              \<and> evaluate rules ctx
                  = evaluate (takeWhile (\<lambda>r. \<not> rule_applies r ctx) rules @ [r]) ctx)"
  unfolding evaluate_def
  by (rule evaluate_loop_first) (simp add: assms load_rules_actions)

lemmas leaf_defs = evaluate_condition_def dict_get_def facts_get_def dict_has_def dict_item_def
  apply_operator_def int_cmp_def py_str_def str_of_int_def str_of_nat.simps is_list_def
  is_list_or_str_def py_in_def

lemma age_conditions:
  "evaluate_condition (age_condition ''GREATER_THAN'' 18) example_context
     = Inr \<lparr>matched = True, reason = ''Condition age GREATER_THAN 18 = True''\<rparr>"
  "evaluate_condition (age_condition ''LESS_THAN'' 18) example_context
     = Inr \<lparr>matched = False, reason = ''Condition age LESS_THAN 18 = False''\<rparr>"
  by (simp_all add: leaf_defs age_condition_def example_context_def)

lemma example_filters:
  "\<not> filter_admits us_rule example_context"
  "filter_admits minor_rule example_context"
  "filter_admits adult_rule example_context"
  by (simp_all add: filter_admits_def us_rule_def minor_rule_def adult_rule_def
      example_context_def)

lemma example_rule_results:
  "evaluate_rule us_rule example_context
     = Inr \<lparr>matched = True,
            reason = ''All AND conditions passed for rule '' @ quoted ''us_only''\<rparr>"
  "evaluate_rule minor_rule example_context
     = Inr \<lparr>matched = False,
            reason = ''AND condition failed: Condition age LESS_THAN 18 = False''\<rparr>"
  "evaluate_rule adult_rule example_context
     = Inr \<lparr>matched = True,
            reason = ''All AND conditions passed for rule '' @ quoted ''adult''\<rparr>"
  by (simp_all add: us_rule_def minor_rule_def adult_rule_def evaluate_rule_def
      age_conditions or_default_def)

lemma example_load:
  "load_rules example_rules_data = [us_rule, minor_rule, adult_rule, adult_or_gold_rule]"
  by (simp add: load_rules_def example_rules_data_def validate_action_def valid_actions_def
      us_rule_def unknown_action_rule_def minor_rule_def adult_rule_def adult_or_gold_rule_def)

lemma example_applies:
  "\<not> rule_applies us_rule example_context"
  "\<not> rule_applies minor_rule example_context"
  "rule_applies adult_rule example_context"
  by (simp_all add: rule_applies_def rule_matched_def example_rule_results example_filters)

text \<open>
  On the example rules the filter decides the verdict: the rule \<open>us_only\<close> stands first
  and its condition matches the context, so without its filter it would refuse the
  request; the context is of jurisdiction UK, the rule is not admitted, and the first rule
  that applies is \<open>adult\<close>, which grants.
\<close>

lemma evaluate_rule_jurisdiction:
  "evaluate_rule (rule\<lparr>jurisdiction := j\<rparr>) ctx = evaluate_rule rule ctx"
  by (simp add: evaluate_rule_def split: option.splits sum.splits)

lemma example_unfiltered:
  "fst (evaluate [us_rule\<lparr>jurisdiction := None\<rparr>, minor_rule, adult_rule, adult_or_gold_rule]
         example_context) = ''NO''"
proof -
  have "action (us_rule\<lparr>jurisdiction := None\<rparr>) = ''GRANT_NO''"
    by (simp add: us_rule_def)
  then show ?thesis
    by (simp add: evaluate_def skipped_def evaluate_rule_jurisdiction example_rule_results
        Let_def)
qed

theorem evaluate_first_match_witness:
  "load_rules example_rules_data = [us_rule, minor_rule, adult_rule, adult_or_gold_rule]
   \<and> rule_matched us_rule example_context
   \<and> jurisdiction us_rule = Some ''US''
   \<and> example_context (KStr ''jurisdiction'') = Some (PStr ''UK'')
   \<and> find (\<lambda>r. rule_applies r example_context) (load_rules example_rules_data) = Some adult_rule
   \<and> action adult_rule = ''GRANT_YES''
   \<and> fst (evaluate (load_rules example_rules_data) example_context) = ''YES''
   \<and> evaluate (load_rules example_rules_data) example_context
       = evaluate [us_rule, minor_rule, adult_rule] example_context"
proof -
  have found: "find (\<lambda>r. rule_applies r example_context) (load_rules example_rules_data)
      = Some adult_rule"
    by (simp add: example_load example_applies)
  have act: "action adult_rule = ''GRANT_YES''"
    by (simp add: adult_rule_def)
  have "rule_matched us_rule example_context"
    by (simp add: rule_matched_def example_rule_results)
  moreover have "jurisdiction us_rule = Some ''US''"
    by (simp add: us_rule_def)
  moreover have "example_context (KStr ''jurisdiction'') = Some (PStr ''UK'')"
    by (simp add: example_context_def)
  ultimately have us: "rule_matched us_rule example_context
      \<and> jurisdiction us_rule = Some ''US''
      \<and> example_context (KStr ''jurisdiction'') = Some (PStr ''UK'')"
    by simp
  from evaluate_first_match [where rules_data = example_rules_data and ctx = example_context, OF refl]
  show ?thesis
    unfolding found using us by (auto simp: example_load example_applies act)
qed


subsection \<open>Condition groups\<close>













subsection \<open>The or-equal operators\<close>

text \<open>
  Claim C4 does not hold of the code. The validator of \<open>RuleCondition\<close> spells the two
  operators \<open>GREATER_THAN_EQUAL\<close> and \<open>LESS_THAN_EQUAL\<close>; the evaluator has branches
  only for \<open>GREATER_THAN_OR_EQUAL_TO\<close> and \<open>LESS_THAN_OR_EQUAL_TO\<close>. So with the fact
  present (\<open>age\<close> is 20, compared with 18) a condition under the validator's spelling, or
  under the claim's, ends in the evaluator's \<open>Unknown operator\<close> branch and does not
  match, although 20 is at least 18; the spelling the evaluator accepts is refused by the
  validator. Rule loading applies none of this: it keeps a rule with any of the spellings.
\<close>

theorem or_equal_operators_disagree:
  "validate_operator ''GREATER_THAN_EQUAL'' = Inr ''GREATER_THAN_EQUAL''
   \<and> evaluate_condition (age_condition ''GREATER_THAN_EQUAL'' 18) example_context
       = Inr \<lparr>matched = False, reason = ''Unknown operator: GREATER_THAN_EQUAL''\<rparr>
   \<and> validate_operator ''LESS_THAN_EQUAL'' = Inr ''LESS_THAN_EQUAL''
   \<and> evaluate_condition (age_condition ''LESS_THAN_EQUAL'' 30) example_context
       = Inr \<lparr>matched = False, reason = ''Unknown operator: LESS_THAN_EQUAL''\<rparr>
   \<and> validate_operator ''GREATER_THAN_OR_EQUAL''
       = Inl (ValueError (''Operator must be one of: ''
                          @ py_repr (PList (map PStr valid_operators))))
   \<and> evaluate_condition (age_condition ''GREATER_THAN_OR_EQUAL'' 18) example_context
       = Inr \<lparr>matched = False, reason = ''Unknown operator: GREATER_THAN_OR_EQUAL''\<rparr>
   \<and> validate_operator ''GREATER_THAN_OR_EQUAL_TO''
       = Inl (ValueError (''Operator must be one of: ''
                          @ py_repr (PList (map PStr valid_operators))))
   \<and> evaluate_condition (age_condition ''GREATER_THAN_OR_EQUAL_TO'' 18) example_context
       = Inr \<lparr>matched = True, reason = ''Condition age GREATER_THAN_OR_EQUAL_TO 18 = True''\<rparr>
   \<and> load_rules
        [\<lparr>name = ''adult'', conditions = [''AND'' \<mapsto> [age_condition ''GREATER_THAN_EQUAL'' 18]],
          action = ''GRANT_YES'', reason_pass = None, reason_fail = None, jurisdiction = None\<rparr>]
       = [\<lparr>name = ''adult'', conditions = [''AND'' \<mapsto> [age_condition ''GREATER_THAN_EQUAL'' 18]],
           action = ''GRANT_YES'', reason_pass = None, reason_fail = None, jurisdiction = None\<rparr>]"
proof -
  have v: "validate_operator ''GREATER_THAN_EQUAL'' = Inr ''GREATER_THAN_EQUAL''"
    "validate_operator ''LESS_THAN_EQUAL'' = Inr ''LESS_THAN_EQUAL''"
    "validate_operator ''GREATER_THAN_OR_EQUAL''
       = Inl (ValueError (''Operator must be one of: ''
                          @ py_repr (PList (map PStr valid_operators))))"
    "validate_operator ''GREATER_THAN_OR_EQUAL_TO''
       = Inl (ValueError (''Operator must be one of: ''
                          @ py_repr (PList (map PStr valid_operators))))"
    by (simp_all add: validate_operator_def) (simp_all add: valid_operators_def)
  have e: "evaluate_condition (age_condition ''GREATER_THAN_EQUAL'' 18) example_context
       = Inr \<lparr>matched = False, reason = ''Unknown operator: GREATER_THAN_EQUAL''\<rparr>"
    "evaluate_condition (age_condition ''LESS_THAN_EQUAL'' 30) example_context
       = Inr \<lparr>matched = False, reason = ''Unknown operator: LESS_THAN_EQUAL''\<rparr>"
    "evaluate_condition (age_condition ''GREATER_THAN_OR_EQUAL'' 18) example_context
       = Inr \<lparr>matched = False, reason = ''Unknown operator: GREATER_THAN_OR_EQUAL''\<rparr>"
    "evaluate_condition (age_condition ''GREATER_THAN_OR_EQUAL_TO'' 18) example_context
       = Inr \<lparr>matched = True, reason = ''Condition age GREATER_THAN_OR_EQUAL_TO 18 = True''\<rparr>"
    by (simp_all add: leaf_defs age_condition_def example_context_def)
  have l: "load_rules
        [\<lparr>name = ''adult'', conditions = [''AND'' \<mapsto> [age_condition ''GREATER_THAN_EQUAL'' 18]],
          action = ''GRANT_YES'', reason_pass = None, reason_fail = None, jurisdiction = None\<rparr>]
       = [\<lparr>name = ''adult'', conditions = [''AND'' \<mapsto> [age_condition ''GREATER_THAN_EQUAL'' 18]],
           action = ''GRANT_YES'', reason_pass = None, reason_fail = None, jurisdiction = None\<rparr>]"
    by (simp add: load_rules_def validate_action_def valid_actions_def)
  from v e l show ?thesis by blast
qed


subsection \<open>Credentials\<close>

text \<open>
  What \<open>verify_token\<close> makes of an issued token, by the instant of the check: the token
  is refused as invalid before its \<open>iat\<close> stamp, refused as expired from its \<open>exp\<close> stamp
  on, and returned with its claim set in between.
\<close>

lemma verify_generated:
  "verify_token lib st now'
     (generate_verifiable_token lib st utc_offset now v code j vid rh qh)
   = (if now' < now - utc_offset then Inl (ValueError ''Invalid token'')
      else if now - utc_offset + jwt_expiry_hours st * 3600 \<le> now'
      then Inl (ValueError ''Token has expired'')
      else Inr [''verdict'' \<mapsto> PStr v,
        ''secure_code'' \<mapsto> PStr code,
        ''jurisdiction'' \<mapsto> PStr j,
        ''verification_id'' \<mapsto> PStr vid,
        ''request_hash'' \<mapsto> PStr qh,
        ''issued_at'' \<mapsto> PStr (isoformat lib now),
        ''exp'' \<mapsto> PInt (now - utc_offset + jwt_expiry_hours st * 3600),
        ''iat'' \<mapsto> PInt (now - utc_offset),
        ''reasoning_hash'' \<mapsto> PStr rh])"
proof -
  have stamp: "now + jwt_expiry_hours st * 3600 - utc_offset
      = now - utc_offset + jwt_expiry_hours st * 3600"
    by simp
  show ?thesis
    unfolding generate_verifiable_token_def utcnow_timestamp_def stamp
    by (simp add: verify_token_def jwt_encode_def jwt_decode_def validate_iat_def
        validate_exp_def)
qed

text \<open>
  On a host that keeps UTC the round trip holds for the whole lifetime of the token: for
  every verdict, verification id, reasoning string and request parameters, the token
  issued at \<open>now\<close> passes \<open>verify_token\<close> under the same settings at any instant from
  \<open>now\<close> up to its expiry, and the claim set returned holds the same verdict, the same
  verification id and, as \<open>reasoning_hash\<close>, the SHA-512 digest of the reasoning string.
  On any host it holds between the two stamps of the token.
\<close>

lemma round_trip_between_stamps:
  assumes "now - utc_offset \<le> now'"
    and "now' < now - utc_offset + jwt_expiry_hours st * 3600"
  shows "\<exists>claims.
           verify_token lib st now'
             (generate_verifiable_token lib st utc_offset now v code j vid
                (sha512_hexdigest lib reasoning)
                (sha256_hexdigest lib (request_data code j cid)))
             = Inr claims
           \<and> claims ''verdict'' = Some (PStr v)
           \<and> claims ''verification_id'' = Some (PStr vid)
           \<and> claims ''reasoning_hash'' = Some (PStr (sha512_hexdigest lib reasoning))"
  using assms by (simp add: verify_generated)

lemma round_trip_on_utc_host:
  assumes "now \<le> now'" and "now' < now + jwt_expiry_hours st * 3600"
  shows "\<exists>claims.
           verify_token lib st now'
             (generate_verifiable_token lib st 0 now v code j vid
                (sha512_hexdigest lib reasoning)
                (sha256_hexdigest lib (request_data code j cid)))
             = Inr claims
           \<and> claims ''verdict'' = Some (PStr v)
           \<and> claims ''verification_id'' = Some (PStr vid)
           \<and> claims ''reasoning_hash'' = Some (PStr (sha512_hexdigest lib reasoning))"
  using assms round_trip_between_stamps [of now 0 now' st] by simp

text \<open>
  Claim C9. The claim asks that a token verified before its expiry gives back its verdict,
  its verification id and the digest of its reasoning. \<open>generate_verifiable_token\<close>
  stamps \<open>iat\<close> and \<open>exp\<close> with \<open>datetime.utcnow().timestamp()\<close>, which shifts both
  stamps by the host's offset from UTC. With the default settings (24 hours of validity)
  and a token issued at the instant 0:

  \<^item> on a host five hours west of Greenwich the token verified 100 seconds later is
    refused as invalid, its \<open>iat\<close> lying five hours ahead;
  \<^item> on a host ten hours east of Greenwich the token verified 60000 seconds later, well
    inside the 24 hours, is refused as expired;
  \<^item> on a host that keeps UTC both verifications return the claim set.
\<close>

theorem round_trip_fails_off_utc:
  "verify_token example_library example_settings 100 (host_token (- 18000))
     = Inl (ValueError ''Invalid token'')
   \<and> (60000 :: int) < jwt_expiry_hours example_settings * 3600
   \<and> verify_token example_library example_settings 60000 (host_token 36000)
     = Inl (ValueError ''Token has expired'')
   \<and> (\<exists>claims. verify_token example_library example_settings 100 (host_token 0) = Inr claims
         \<and> claims ''verdict'' = Some (PStr ''YES'')
         \<and> claims ''verification_id'' = Some (PStr ''id-1'')
         \<and> claims ''reasoning_hash'' = Some (PStr (sha512_hexdigest example_library ''granted'')))
   \<and> (\<exists>claims. verify_token example_library example_settings 60000 (host_token 0) = Inr claims
         \<and> claims ''verdict'' = Some (PStr ''YES'')
         \<and> claims ''verification_id'' = Some (PStr ''id-1'')
         \<and> claims ''reasoning_hash'' = Some (PStr (sha512_hexdigest example_library ''granted'')))"
  by (simp add: host_token_def verify_generated example_settings_def)


subsection \<open>Request integrity\<close>








subsection \<open>The fact context\<close>

lemma build_context_lookup:
  "build_context request secure_data k
     = (case secure_data k of
          Some v \<Rightarrow> Some v
        | None \<Rightarrow>
            [KStr ''secure_code'' \<mapsto> PStr (secure_code request),
             KStr ''jurisdiction'' \<mapsto> PStr (request_jurisdiction request),
             KStr ''client_id'' \<mapsto>
               (case client_id request of None \<Rightarrow> PNone | Some c \<Rightarrow> PStr c)] k)"
proof (cases "secure_data = Map.empty")
  case True
  then show ?thesis by (simp add: build_context_def)
next
  case False
  then show ?thesis
    by (simp add: build_context_def Let_def map_add_def split: option.splits)
qed

text \<open>
  Claim C1, as the code has it. The context is the three request fields updated with the
  fetched attributes, so an attribute of the fetched map always wins. A request identity
  field of the context holds the request's value when the fetched map has no attribute
  of that name, and the fetched value when it has one.
\<close>

theorem context_identity_fields:
  "(secure_data (KStr ''secure_code'') = None \<longrightarrow>
      build_context request secure_data (KStr ''secure_code'') = Some (PStr (secure_code request)))
   \<and> (secure_data (KStr ''jurisdiction'') = None \<longrightarrow>
      build_context request secure_data (KStr ''jurisdiction'')
        = Some (PStr (request_jurisdiction request)))
   \<and> (secure_data (KStr ''client_id'') = None \<longrightarrow>
      build_context request secure_data (KStr ''client_id'')
        = Some (case client_id request of None \<Rightarrow> PNone | Some c \<Rightarrow> PStr c))
   \<and> (secure_data k = Some v \<longrightarrow> build_context request secure_data k = Some v)"
  by (simp add: build_context_lookup)

theorem context_identity_fields_witness:
  "build_context plain_request [KStr ''age'' \<mapsto> PInt 20] (KStr ''secure_code'') = Some (PStr ''ABC'')
   \<and> build_context plain_request [KStr ''age'' \<mapsto> PInt 20] (KStr ''jurisdiction'') = Some (PStr ''UK'')
   \<and> build_context plain_request [KStr ''age'' \<mapsto> PInt 20] (KStr ''client_id'') = Some PNone
   \<and> build_context plain_request [KStr ''age'' \<mapsto> PInt 20] (KStr ''age'') = Some (PInt 20)"
  using context_identity_fields
    [where request = plain_request and secure_data = "[KStr ''age'' \<mapsto> PInt 20]"
       and k = "KStr ''age''" and v = "PInt 20"]
  by (simp add: plain_request_def)

text \<open>
  Claim C1 as stated fails: a source that returns an attribute named \<open>jurisdiction\<close>
  replaces the jurisdiction of the request in the context.
\<close>

theorem context_overwrite_counterexample:
  "request_jurisdiction plain_request = ''UK''
   \<and> build_context plain_request [KStr ''jurisdiction'' \<mapsto> PStr ''US'']
       (KStr ''jurisdiction'')
       = Some (PStr ''US'')
   \<and> PStr ''US'' \<noteq> PStr (request_jurisdiction plain_request)"
  by (simp add: build_context_def plain_request_def)


subsection \<open>Security answers\<close>

lemma lower_empty: "lower s = [] \<longleftrightarrow> s = []"
  by (simp add: lower_def)

lemma strip_empty: "strip [] = []"
  by (simp add: strip_def)

lemma lower_Nil: "lower [] = []"
  by (simp add: lower_def)

lemma validate_first_answer:
  "valid (validate_security_answers ((field, answer) # others) secure_data)
     \<longleftrightarrow> field \<in> set valid_fields \<and> strip answer \<noteq> []
          \<and> (\<exists>s. secure_data (KStr field) = Some (PStr s) \<and> lower (strip answer) = lower (strip s))"
proof (cases "secure_data (KStr field)")
  case None
  then show ?thesis
    by (auto simp: validate_security_answers_def strip_empty lower_Nil lower_empty)
next
  case (Some x)
  then show ?thesis
    by (cases x) (auto simp: validate_security_answers_def strip_empty)
qed

lemma process_request_rejected:
  assumes "fst (fetch_secure_data w connectors (secure_code request)) = secure_data"
    and "secure_data \<noteq> Map.empty"
    and "security_answers request = Some (a # others)"
    and "\<not> valid (validate_security_answers (a # others) secure_data)"
  shows "process_request w connectors rules request
         = ([Fetched, AnswersValidated False, CleanedUp],
            Inr \<lparr>verdict = ''NO'', jwt_token = [], qr_code = []\<rparr>)"
  using assms by (simp add: process_request_def Let_def)

lemma process_request_accepted:
  assumes "fst (fetch_secure_data w connectors (secure_code request)) = secure_data"
    and "secure_data \<noteq> Map.empty"
    and "security_answers request = Some (a # others)"
    and "valid (validate_security_answers (a # others) secure_data)"
  shows "fst (process_request w connectors rules request)
         = [Fetched, AnswersValidated True,
            RulesEvaluated (fst (evaluate rules (build_context request secure_data)))
                           (snd (evaluate rules (build_context request secure_data))),
            CleanedUp]"
  using assms by (simp add: process_request_def Let_def split: prod.splits)

text \<open>
  The path on which the answers are validated. Take a request that supplies security
  answers, the first of them \<open>(field, answer)\<close>, and let the fetch have returned at least
  one attribute. The answer and the attribute are compared after \<open>.strip().lower()\<close>.

  \<^item> If the field is outside the enumerated set, or the answer is blank, or the fetched
    data has no attribute of that name or one that is not a string, or the two compared
    strings differ, the request returns verdict NO with an empty token and an empty QR
    code, and the rules are not evaluated.
  \<^item> Otherwise the answer is accepted and the rules are evaluated on the fact context.
\<close>

lemma security_answers_gate:
  assumes "fst (fetch_secure_data w connectors (secure_code request)) = secure_data"
    and "secure_data \<noteq> Map.empty"
    and "security_answers request = Some ((field, answer) # others)"
  shows "(field \<notin> set valid_fields \<or> strip answer = []
            \<or> (\<forall>s. secure_data (KStr field) = Some (PStr s) \<longrightarrow> lower (strip answer) \<noteq> lower (strip s))
          \<longrightarrow> process_request w connectors rules request
              = ([Fetched, AnswersValidated False, CleanedUp],
                 Inr \<lparr>verdict = ''NO'', jwt_token = [], qr_code = []\<rparr>))
     \<and> (field \<in> set valid_fields \<and> strip answer \<noteq> []
            \<and> secure_data (KStr field) = Some (PStr stored)
            \<and> lower (strip answer) = lower (strip stored)
          \<longrightarrow> fst (process_request w connectors rules request)
              = [Fetched, AnswersValidated True,
                 RulesEvaluated (fst (evaluate rules (build_context request secure_data)))
                                (snd (evaluate rules (build_context request secure_data))),
                 CleanedUp])"
proof -
  have bad: "process_request w connectors rules request
              = ([Fetched, AnswersValidated False, CleanedUp],
                 Inr \<lparr>verdict = ''NO'', jwt_token = [], qr_code = []\<rparr>)"
    if "field \<notin> set valid_fields \<or> strip answer = []
            \<or> (\<forall>s. secure_data (KStr field) = Some (PStr s) \<longrightarrow> lower (strip answer) \<noteq> lower (strip s))"
  proof -
    from that have "\<not> valid (validate_security_answers ((field, answer) # others) secure_data)"
      unfolding validate_first_answer by blast
    from process_request_rejected [OF assms this] show ?thesis .
  qed
  have good: "fst (process_request w connectors rules request)
              = [Fetched, AnswersValidated True,
                 RulesEvaluated (fst (evaluate rules (build_context request secure_data)))
                                (snd (evaluate rules (build_context request secure_data))),
                 CleanedUp]"
    if "field \<in> set valid_fields \<and> strip answer \<noteq> []
            \<and> secure_data (KStr field) = Some (PStr stored)
            \<and> lower (strip answer) = lower (strip stored)"
  proof -
    from that have "valid (validate_security_answers ((field, answer) # others) secure_data)"
      unfolding validate_first_answer by blast
    from process_request_accepted [OF assms this] show ?thesis .
  qed
  from bad good show ?thesis by blast
qed

lemma colour_fetch:
  "fst (fetch_secure_data colour_world [(''a'', example_connector)] ''ABC'')
   = [KStr ''favorite_color'' \<mapsto> PStr '' Blue '', KStr ''birth_town'' \<mapsto> PInt 7]"
  by (simp add: fetch_secure_data_def fetch_one_def make_request_def colour_world_def
      example_connector_def CircuitBreaker_init_def can_execute_def record_success_def
      dict_update_def eval_nat_numeral auth_headers_def)

lemma colour_nonempty:
  "[KStr ''favorite_color'' \<mapsto> PStr '' Blue '', KStr ''birth_town'' \<mapsto> PInt 7] \<noteq> Map.empty"
  by simp

lemma folded:
  "strip ''42'' = ''42''" "strip ''   '' = []" "strip ''rex'' = ''rex''"
  "strip ''red'' = ''red''" "strip ''BLUE '' = ''BLUE''" "strip '' Blue '' = ''Blue''"
  "lower ''red'' = ''red''" "lower ''BLUE'' = ''blue''" "lower ''Blue'' = ''blue''"
  by code_simp+

lemma uk_verdict:
  "evaluate [uk_rule]
     (build_context (answering field answer)
        [KStr ''favorite_color'' \<mapsto> PStr '' Blue '', KStr ''birth_town'' \<mapsto> PInt 7])
   = (''YES'', ''Rule '' @ quoted ''uk'' @ '': All AND conditions passed for rule '' @ quoted ''uk'')"
  "evaluate [uk_rule] (build_context (answering field answer) Map.empty)
   = (''YES'', ''Rule '' @ quoted ''uk'' @ '': All AND conditions passed for rule '' @ quoted ''uk'')"
  by (simp_all add: evaluate_def uk_rule_def skipped_def evaluate_rule_def leaf_defs or_default_def
      build_context_lookup answering_def plain_request_def)

lemma answering_fields:
  "secure_code (answering field answer) = ''ABC''"
  "security_answers (answering field answer) = Some ((field, answer) # [])"
  by (simp_all add: answering_def plain_request_def)

lemma security_answers_gate_examples:
  "fst (fetch_secure_data colour_world [(''a'', example_connector)] ''ABC'')
     = [KStr ''favorite_color'' \<mapsto> PStr '' Blue '', KStr ''birth_town'' \<mapsto> PInt 7]
   \<and> process_request colour_world [(''a'', example_connector)] [uk_rule]
        (answering ''shoe_size'' ''42'')
       = ([Fetched, AnswersValidated False, CleanedUp],
          Inr \<lparr>verdict = ''NO'', jwt_token = [], qr_code = []\<rparr>)
   \<and> process_request colour_world [(''a'', example_connector)] [uk_rule]
        (answering ''favorite_color'' ''   '')
       = ([Fetched, AnswersValidated False, CleanedUp],
          Inr \<lparr>verdict = ''NO'', jwt_token = [], qr_code = []\<rparr>)
   \<and> process_request colour_world [(''a'', example_connector)] [uk_rule]
        (answering ''favorite_color'' ''red'')
       = ([Fetched, AnswersValidated False, CleanedUp],
          Inr \<lparr>verdict = ''NO'', jwt_token = [], qr_code = []\<rparr>)
   \<and> process_request colour_world [(''a'', example_connector)] [uk_rule]
        (answering ''birth_town'' ''rex'')
       = ([Fetched, AnswersValidated False, CleanedUp],
          Inr \<lparr>verdict = ''NO'', jwt_token = [], qr_code = []\<rparr>)
   \<and> fst (process_request colour_world [(''a'', example_connector)] [uk_rule]
        (answering ''favorite_color'' ''BLUE ''))
       = [Fetched, AnswersValidated True,
          RulesEvaluated ''YES''
            (''Rule '' @ quoted ''uk'' @ '': All AND conditions passed for rule '' @ quoted ''uk''),
          CleanedUp]"
proof -
  note gate = security_answers_gate
    [where w = colour_world and connectors = "[(''a'', example_connector)]"
       and rules = "[uk_rule]" and others = "[]",
     OF _ colour_nonempty]
  have fields: "''shoe_size'' \<notin> set valid_fields" "''favorite_color'' \<in> set valid_fields"
    by (simp_all add: valid_fields_def)
  have unknown: "process_request colour_world [(''a'', example_connector)] [uk_rule]
        (answering ''shoe_size'' ''42'')
       = ([Fetched, AnswersValidated False, CleanedUp],
          Inr \<lparr>verdict = ''NO'', jwt_token = [], qr_code = []\<rparr>)"
    using gate [where request = "answering ''shoe_size'' ''42''" and field = "''shoe_size''"
        and answer = "''42''"] fields
    by (simp add: answering_fields colour_fetch)
  have blank: "process_request colour_world [(''a'', example_connector)] [uk_rule]
        (answering ''favorite_color'' ''   '')
       = ([Fetched, AnswersValidated False, CleanedUp],
          Inr \<lparr>verdict = ''NO'', jwt_token = [], qr_code = []\<rparr>)"
    using gate [where request = "answering ''favorite_color'' ''   ''"
        and field = "''favorite_color''" and answer = "''   ''"]
    by (simp add: answering_fields colour_fetch folded)
  have wrong: "process_request colour_world [(''a'', example_connector)] [uk_rule]
        (answering ''favorite_color'' ''red'')
       = ([Fetched, AnswersValidated False, CleanedUp],
          Inr \<lparr>verdict = ''NO'', jwt_token = [], qr_code = []\<rparr>)"
    using gate [where request = "answering ''favorite_color'' ''red''"
        and field = "''favorite_color''" and answer = "''red''"]
    by (simp add: answering_fields colour_fetch folded)
  have not_a_string: "process_request colour_world [(''a'', example_connector)] [uk_rule]
        (answering ''birth_town'' ''rex'')
       = ([Fetched, AnswersValidated False, CleanedUp],
          Inr \<lparr>verdict = ''NO'', jwt_token = [], qr_code = []\<rparr>)"
    using gate [where request = "answering ''birth_town'' ''rex''"
        and field = "''birth_town''" and answer = "''rex''"]
    by (simp add: answering_fields colour_fetch folded)
  have right: "fst (process_request colour_world [(''a'', example_connector)] [uk_rule]
        (answering ''favorite_color'' ''BLUE ''))
       = [Fetched, AnswersValidated True,
          RulesEvaluated ''YES''
            (''Rule '' @ quoted ''uk'' @ '': All AND conditions passed for rule '' @ quoted ''uk''),
          CleanedUp]"
    using gate [where request = "answering ''favorite_color'' ''BLUE ''"
        and field = "''favorite_color''" and answer = "''BLUE ''" and stored = "'' Blue ''"]
      fields
    by (simp add: answering_fields colour_fetch folded uk_verdict)
  from colour_fetch unknown blank wrong not_a_string right show ?thesis by blast
qed

text \<open>
  The path on which they are not: when the fetch returned nothing, the answers are not
  looked at, whatever they are, and the rules are evaluated on the three request fields.
\<close>

lemma empty_fetch_skips_validation:
  assumes "fst (fetch_secure_data w connectors (secure_code request)) = Map.empty"
  shows "fst (process_request w connectors rules request)
         = [Fetched,
            RulesEvaluated (fst (evaluate rules (build_context request Map.empty)))
                           (snd (evaluate rules (build_context request Map.empty))),
            CleanedUp]"
  using assms by (simp add: process_request_def Let_def split: prod.splits)

lemma first_pet_name_valid:
  "''first_pet_name'' \<in> set valid_fields"
  by (simp add: valid_fields_def)

lemma pet_refused:
  "process_request colour_world [(''a'', example_connector)] [uk_rule]
     (answering ''first_pet_name'' ''rex'')
   = ([Fetched, AnswersValidated False, CleanedUp],
      Inr \<lparr>verdict = ''NO'', jwt_token = [], qr_code = []\<rparr>)"
  using security_answers_gate
    [where w = colour_world and connectors = "[(''a'', example_connector)]"
       and rules = "[uk_rule]" and others = "[]"
       and request = "answering ''first_pet_name'' ''rex''"
       and field = "''first_pet_name''" and answer = "''rex''",
     OF _ colour_nonempty]
  by (simp add: answering_fields colour_fetch)

text \<open>
  Claim C5. The claim asks that a request whose first answer names a field outside the
  enumerated set, is blank or differs from the fetched attribute gets verdict NO without
  the rules being evaluated. \<open>process_request\<close> validates the answers under
  \<open>if secure_data:\<close>, so a fetch that returns nothing (every source down, or no source
  configured) switches the validation off. Here the only source is down. A request that
  answers a question outside the enumerated set, and one that answers \<open>first_pet_name\<close>,
  for which nothing is stored, both reach the rules, which grant (the run then ends in the
  exception of the missing import, not in a response with verdict NO). The second request
  is refused as soon as the source returns any attribute at all, although it still returns
  none for \<open>first_pet_name\<close>: the validation itself treats a missing attribute as a
  mismatch.
\<close>

theorem answers_unchecked_when_fetch_empty:
  "fst (fetch_secure_data example_world [(''a'', example_connector)] ''ABC'') = Map.empty
   \<and> security_answers (answering ''shoe_size'' ''42'') = Some [(''shoe_size'', ''42'')]
   \<and> ''shoe_size'' \<notin> set valid_fields
   \<and> process_request example_world [(''a'', example_connector)] [uk_rule]
        (answering ''shoe_size'' ''42'')
       = ([Fetched,
           RulesEvaluated ''YES''
             (''Rule '' @ quoted ''uk'' @ '': All AND conditions passed for rule '' @ quoted ''uk''),
           CleanedUp],
          Inl (NameError (''name '' @ quoted ''generate_verifiable_token'' @ '' is not defined'')))
   \<and> ''first_pet_name'' \<in> set valid_fields
   \<and> process_request example_world [(''a'', example_connector)] [uk_rule]
        (answering ''first_pet_name'' ''rex'')
       = ([Fetched,
           RulesEvaluated ''YES''
             (''Rule '' @ quoted ''uk'' @ '': All AND conditions passed for rule '' @ quoted ''uk''),
           CleanedUp],
          Inl (NameError (''name '' @ quoted ''generate_verifiable_token'' @ '' is not defined'')))
   \<and> fst (fetch_secure_data colour_world [(''a'', example_connector)] ''ABC'')
         (KStr ''first_pet_name'') = None
   \<and> process_request colour_world [(''a'', example_connector)] [uk_rule]
        (answering ''first_pet_name'' ''rex'')
       = ([Fetched, AnswersValidated False, CleanedUp],
          Inr \<lparr>verdict = ''NO'', jwt_token = [], qr_code = []\<rparr>)"
proof -
  have empty: "fst (fetch_secure_data example_world [(''a'', example_connector)] ''ABC'') = Map.empty"
    by (simp add: fetch_secure_data_def example_a)
  have run: "process_request example_world [(''a'', example_connector)] [uk_rule]
        (answering field answer)
       = ([Fetched,
           RulesEvaluated ''YES''
             (''Rule '' @ quoted ''uk'' @ '': All AND conditions passed for rule '' @ quoted ''uk''),
           CleanedUp],
          Inl (NameError (''name '' @ quoted ''generate_verifiable_token'' @ '' is not defined'')))"
    for field answer
    by (simp add: process_request_def answering_fields empty uk_verdict)
  have unknown: "''shoe_size'' \<notin> set valid_fields"
    by (simp add: valid_fields_def)
  have nothing_stored: "fst (fetch_secure_data colour_world [(''a'', example_connector)] ''ABC'')
         (KStr ''first_pet_name'') = None"
    by (simp add: colour_fetch)
  from empty run [of "''shoe_size''" "''42''"] run [of "''first_pet_name''" "''rex''"] unknown
    nothing_stored pet_refused answering_fields(2) [of "''shoe_size''" "''42''"]
    first_pet_name_valid
  show ?thesis by blast
qed


subsection \<open>Outcome of a request\<close>

text \<open>
  No run of \<open>process_request\<close> returns a credential: it either returns the response with
  verdict NO and no token, or ends in the \<open>NameError\<close> of the call it makes after the
  rules are evaluated. The theorems on tokens above are therefore about
  \<open>generate_verifiable_token\<close> as \<open>core/security.py\<close> defines it, called with the
  arguments that \<open>process_request\<close> computes for it.
\<close>

lemma process_request_outcomes:
  "snd (process_request w connectors rules request)
     = Inr \<lparr>verdict = ''NO'', jwt_token = [], qr_code = []\<rparr>
   \<or> snd (process_request w connectors rules request)
     = Inl (NameError (''name '' @ quoted ''generate_verifiable_token'' @ '' is not defined''))"
  by (simp add: process_request_def Let_def split: prod.splits)


end
